theory Spec2Isabelle
  imports Main
begin

section \<open>Errors\<close>

text \<open>
  Every exception of the Python source is a value. The class of the exception is the
  constructor; the formatted message is kept as a structured reason, so that two
  exceptions of one class with different messages stay different values.
\<close>

datatype reason =
    InvalidTtdbVersion string
  | EditionNotProvided string
  | InvalidPgdgVersion string
  | UnknownDbType string
  | UnsupportedDbType string
  | MinorMajorMismatch string string
  | CommandFailed int "string list"
  | ErrorFoundDuringExecution string string
  | FailedToCopy string
  | FailedToInspectPackage string
  | FailedToParsePackageVersion string
  | PackageVersionMismatch string string
  | ScriptNotFound string
  | PackageNotFound string
  | ScriptFilesNotFound "string list"
  | StrategyNotImplemented
  | NoneAttribute string
  | NoneAsPath
  | NexusSettingNotSet string
  | IsADirectory string
  | InvalidUtf8 string

datatype error =
    ValueError reason
  | RuntimeError reason
  | FileNotFoundError reason
  | NotImplementedError reason
  | AttributeError reason
  | TypeError reason
  | KeyError reason
  | OSError reason
  | UnicodeDecodeError reason

section \<open>Version descriptor (upgrade/database.py, DbVersion)\<close>

record DbVersion =
  version :: string
  edition :: "string option"
  major :: string
  db_type :: string

text \<open>\<open>DbVersion.__str__\<close>. An edition of \<open>None\<close> is formatted by Python as \<open>None\<close>.\<close>

definition str_DbVersion :: "DbVersion \<Rightarrow> string" where
  "str_DbVersion v =
     (if db_type v = ''ttdb''
      then version v @ ''-'' @ (case edition v of None \<Rightarrow> ''None'' | Some e \<Rightarrow> e)
      else version v @ ''-pgdg'')"

text \<open>
  The regular expressions of \<open>DbVersion.create\<close>, matched by hand. \<open>\d\<close> is an ASCII
  digit here (a \<open>string\<close> is a list of bytes). Python's \<open>$\<close> matches at the end of the
  string and also just before a newline that ends the string.
\<close>

definition is_digit :: "char \<Rightarrow> bool" where
  "is_digit c = (c \<in> set ''0123456789'')"

definition at_dollar :: "string \<Rightarrow> bool" where
  "at_dollar s = (s = [] \<or> s = [CHR 0x0A])"

text \<open>\<open>\d+\<close> at the start of the string: the digits matched and the rest, or no match.\<close>

definition digits1 :: "string \<Rightarrow> (string \<times> string) option" where
  "digits1 s =
     (let ds = takeWhile is_digit s
      in if ds = [] then None else Some (ds, dropWhile is_digit s))"

text \<open>A literal dot.\<close>

fun dot :: "string \<Rightarrow> string option" where
  "dot [] = None"
| "dot (c # cs) = (if c = CHR ''.'' then Some cs else None)"

text \<open>\<open>re.match(r'^\d+\.\d+\.\d+$', version)\<close>\<close>

definition match_ttdb :: "string \<Rightarrow> bool" where
  "match_ttdb s =
     (case digits1 s of None \<Rightarrow> False | Some (a, r1) \<Rightarrow>
      (case dot r1 of None \<Rightarrow> False | Some r2 \<Rightarrow>
      (case digits1 r2 of None \<Rightarrow> False | Some (b, r3) \<Rightarrow>
      (case dot r3 of None \<Rightarrow> False | Some r4 \<Rightarrow>
      (case digits1 r4 of None \<Rightarrow> False | Some (c, r5) \<Rightarrow> at_dollar r5)))))"

text \<open>
  \<open>re.match(r'^(\d+)\.(\d+)(\.\d+)?$', version)\<close>: groups 1 and 2 of the match.
  The optional group is tried first; when it does not lead to a match the pattern is
  retried without it.
\<close>

definition match_pgdg :: "string \<Rightarrow> (string \<times> string) option" where
  "match_pgdg s =
     (case digits1 s of None \<Rightarrow> None | Some (a, r1) \<Rightarrow>
      (case dot r1 of None \<Rightarrow> None | Some r2 \<Rightarrow>
      (case digits1 r2 of None \<Rightarrow> None | Some (b, r3) \<Rightarrow>
        (if (case dot r3 of None \<Rightarrow> False | Some r4 \<Rightarrow>
              (case digits1 r4 of None \<Rightarrow> False | Some (c, r5) \<Rightarrow> at_dollar r5))
         then Some (a, b)
         else if at_dollar r3 then Some (a, b) else None))))"

text \<open>\<open>version.split('.')[0]\<close>: the text before the first dot.\<close>

definition split_dot_first :: "string \<Rightarrow> string" where
  "split_dot_first s = takeWhile (\<lambda>c. c \<noteq> CHR ''.'') s"

text \<open>\<open>DbVersion.create(version, edition, db_type)\<close>. \<open>not edition\<close> holds for \<open>None\<close>
  and for the empty string.\<close>

definition create :: "string \<Rightarrow> string option \<Rightarrow> string \<Rightarrow> error + DbVersion" where
  "create ver ed dbt =
     (if dbt = ''ttdb'' then
        (if \<not> match_ttdb ver then Inl (ValueError (InvalidTtdbVersion ver))
         else if ed = None \<or> ed = Some [] then Inl (ValueError (EditionNotProvided ver))
         else Inr \<lparr>version = ver, edition = ed, major = split_dot_first ver, db_type = dbt\<rparr>)
      else if dbt = ''pgdg'' then
        (case match_pgdg ver of
           None \<Rightarrow> Inl (ValueError (InvalidPgdgVersion ver))
         | Some (major_part, minor_part) \<Rightarrow>
             Inr \<lparr>version = major_part @ ''.'' @ minor_part, edition = None,
                  major = major_part, db_type = dbt\<rparr>)
      else Inl (ValueError (UnknownDbType dbt)))"

text \<open>A non-empty run of digits: the \<open>X\<close>, \<open>Y\<close> and \<open>Z\<close> of a version string.\<close>

definition number :: "string \<Rightarrow> bool" where
  "number s = (s \<noteq> [] \<and> list_all is_digit s)"

section \<open>Strings and paths of the Python library\<close>

text \<open>\<open>sub in s\<close> for strings.\<close>

fun contains :: "string \<Rightarrow> string \<Rightarrow> bool" where
  "contains sub [] = (sub = [])"
| "contains sub (c # cs) = (take (length sub) (c # cs) = sub \<or> contains sub cs)"

text \<open>\<open>s.endswith(suffix)\<close>\<close>

definition endswith :: "string \<Rightarrow> string \<Rightarrow> bool" where
  "endswith s suffix = (length suffix \<le> length s \<and> drop (length s - length suffix) s = suffix)"

text \<open>Whitespace of \<open>str.strip()\<close> and of \<open>\s\<close>, within ASCII.\<close>

definition is_space :: "char \<Rightarrow> bool" where
  "is_space c = (c \<in> set [CHR '' '', CHR 0x09, CHR 0x0A, CHR 0x0B, CHR 0x0C, CHR 0x0D,
                            CHR 0x1C, CHR 0x1D, CHR 0x1E, CHR 0x1F])"

definition strip :: "string \<Rightarrow> string" where
  "strip s = rev (dropWhile is_space (rev (dropWhile is_space s)))"

text \<open>\<open>os.path.join(a, b)\<close> on POSIX: an absolute \<open>b\<close> replaces \<open>a\<close>.\<close>

definition path_join :: "string \<Rightarrow> string \<Rightarrow> string" where
  "path_join a b =
     (if b \<noteq> [] \<and> hd b = CHR ''/'' then b
      else if a = [] \<or> last a = CHR ''/'' then a @ b
      else a @ ''/'' @ b)"

text \<open>\<open>os.path.basename\<close>: the text after the last slash.\<close>

definition basename :: "string \<Rightarrow> string" where
  "basename p = rev (takeWhile (\<lambda>c. c \<noteq> CHR ''/'') (rev p))"

text \<open>
  \<open>os.path.splitext(p)[0]\<close>: the text before the last dot of the last component, unless
  that component has no dot after its leading dots.
\<close>

definition splitext_root :: "string \<Rightarrow> string" where
  "splitext_root p =
     (let b = basename p;
          ext = rev (takeWhile (\<lambda>c. c \<noteq> CHR ''.'') (rev b));
          stem = take (length b - length ext - 1) b
      in if CHR ''.'' \<notin> set b then p
         else if list_all (\<lambda>c. c = CHR ''.'') stem then p
         else take (length p - length ext - 1) p)"

text \<open>
  \<open>shlex.quote\<close> and \<open>shlex.join\<close>: a word of safe characters is left as it is, any
  other word is put in single quotes, with each single quote inside it written
  \<open>'"'"'\<close>.
\<close>

definition is_safe :: "char \<Rightarrow> bool" where
  "is_safe c =
     (c \<in> set ''abcdefghijklmnopqrstuvwxyzABCDEFGHIJKLMNOPQRSTUVWXYZ0123456789_@%+=:,./-'')"

definition shlex_quote :: "string \<Rightarrow> string" where
  "shlex_quote s =
     (if s = [] then [CHR 0x27, CHR 0x27]
      else if list_all is_safe s then s
      else [CHR 0x27] @
           concat (map (\<lambda>c. if c = CHR 0x27
                              then [CHR 0x27, CHR 0x22, CHR 0x27, CHR 0x22, CHR 0x27]
                              else [c]) s) @
           [CHR 0x27])"

fun join_with :: "string \<Rightarrow> string list \<Rightarrow> string" where
  "join_with sep [] = []"
| "join_with sep [x] = x"
| "join_with sep (x # y # ys) = x @ sep @ join_with sep (y # ys)"

definition shlex_join :: "string list \<Rightarrow> string" where
  "shlex_join ws = join_with '' '' (map shlex_quote ws)"

text \<open>
  Reading a text file line by line: \<open>\r\n\<close> and \<open>\r\<close> are read as \<open>\n\<close>, and each
  line keeps its newline.
\<close>

fun universal_newlines :: "string \<Rightarrow> string" where
  "universal_newlines [] = []"
| "universal_newlines [c] = (if c = CHR 0x0D then [CHR 0x0A] else [c])"
| "universal_newlines (c # d # cs) =
     (if c = CHR 0x0D \<and> d = CHR 0x0A then CHR 0x0A # universal_newlines cs
      else if c = CHR 0x0D then CHR 0x0A # universal_newlines (d # cs)
      else c # universal_newlines (d # cs))"

fun lines_from :: "string \<Rightarrow> string \<Rightarrow> string list" where
  "lines_from acc [] = (if acc = [] then [] else [acc])"
| "lines_from acc (c # cs) =
     (if c = CHR 0x0A then (acc @ [c]) # lines_from [] cs else lines_from (acc @ [c]) cs)"

definition file_lines :: "string \<Rightarrow> string list" where
  "file_lines content = lines_from [] (universal_newlines content)"

text \<open>
  Strict UTF-8, as \<open>bytes.decode('utf-8')\<close> accepts it: no overlong form, no surrogate,
  nothing above U+10FFFF. \<open>utf8_first\<close> is the number of bytes of the character at the
  head of the text, or 0 when the head is not a complete valid character.
\<close>

definition byte :: "char \<Rightarrow> nat" where
  "byte c = of_char c"

definition utf8_first :: "string \<Rightarrow> nat" where
  "utf8_first s =
     (case map byte (take 4 s) of
        [] \<Rightarrow> 0
      | a # r \<Rightarrow>
          if a < 128 then 1
          else if 194 \<le> a \<and> a \<le> 223 then
            (case r of
               b # _ \<Rightarrow> if 128 \<le> b \<and> b \<le> 191 then 2 else 0
             | [] \<Rightarrow> 0)
          else if 224 \<le> a \<and> a \<le> 239 then
            (case r of
               b # c # _ \<Rightarrow>
                 if (if a = 224 then 160 else 128) \<le> b \<and> b \<le> (if a = 237 then 159 else 191)
                    \<and> 128 \<le> c \<and> c \<le> 191
                 then 3 else 0
             | _ \<Rightarrow> 0)
          else if 240 \<le> a \<and> a \<le> 244 then
            (case r of
               b # c # d # _ \<Rightarrow>
                 if (if a = 240 then 144 else 128) \<le> b \<and> b \<le> (if a = 244 then 143 else 191)
                    \<and> 128 \<le> c \<and> c \<le> 191 \<and> 128 \<le> d \<and> d \<le> 191
                 then 4 else 0
             | _ \<Rightarrow> 0)
          else 0)"

function utf8_valid :: "string \<Rightarrow> bool" where
  "utf8_valid s =
     (if s = [] then True
      else if utf8_first s = 0 then False
      else utf8_valid (drop (utf8_first s) s))"
  by pat_completeness auto
termination
  by (relation "measure length") auto

declare utf8_valid.simps [simp del]

section \<open>The world outside the program\<close>

text \<open>
  The program acts on a container, through the Docker API, and on the files of the host
  it runs on. A command sent to the container is recorded in \<open>trace\<close>. What the
  container answers (the exit code and the chunks of output) is the field \<open>container\<close>,
  a function of the commands sent so far and of the command: any deterministic container.
  The Docker API calls themselves do not fail here, a file can always be opened for
  appending, and the container does not write to the files of the host. Texts are kept
  as the bytes of their UTF-8 form, and the files are written in UTF-8.
\<close>

record call =
  cmd :: string
  environment :: "(string \<times> string option) list option"
  workdir :: "string option"

datatype level = DEBUG | INFO | WARNING | ERROR

datatype arg = S string | I int

datatype docker_event = ManagerCreated | ContainerStarted

record world =
  container :: "call list \<Rightarrow> call \<Rightarrow> int \<times> string list"
  trace :: "call list"
  files :: "string \<Rightarrow> string option"
  dirs :: "string list"
  logged :: "(level \<times> string \<times> arg list) list"
  stdout :: "string list"
  docker :: "docker_event list"
  environ :: "string \<Rightarrow> string option"
  abspath :: "string \<Rightarrow> string"
  getcwd :: string
  TIMESTAMP :: string

type_synonym 'a prog = "world \<Rightarrow> (error + 'a) \<times> world"

definition ret :: "'a \<Rightarrow> 'a prog" where
  "ret x w = (Inr x, w)"

definition raise :: "error \<Rightarrow> 'a prog" where
  "raise e w = (Inl e, w)"

definition bindE :: "'a prog \<Rightarrow> ('a \<Rightarrow> 'b prog) \<Rightarrow> 'b prog" where
  "bindE m f w = (case m w of (Inl e, w') \<Rightarrow> (Inl e, w') | (Inr x, w') \<Rightarrow> f x w')"

definition seqE :: "'a prog \<Rightarrow> 'b prog \<Rightarrow> 'b prog" where
  "seqE m n = bindE m (\<lambda>_. n)"

text \<open>\<open>try: m except Exception as e: h e\<close>\<close>

definition catch :: "'a prog \<Rightarrow> (error \<Rightarrow> 'a prog) \<Rightarrow> 'a prog" where
  "catch m h w = (case m w of (Inl e, w') \<Rightarrow> h e w' | (Inr x, w') \<Rightarrow> (Inr x, w'))"

text \<open>A statement list run in order, stopping at the first exception.\<close>

fun seq_all :: "unit prog list \<Rightarrow> unit prog" where
  "seq_all [] = ret ()"
| "seq_all (m # ms) = seqE m (seq_all ms)"

definition logger :: "level \<Rightarrow> string \<Rightarrow> arg list \<Rightarrow> unit prog" where
  "logger lvl msg args w = (Inr (), w\<lparr>logged := logged w @ [(lvl, msg, args)]\<rparr>)"

text \<open>Reading the world, and a result computed without it.\<close>

definition gets :: "(world \<Rightarrow> 'a) \<Rightarrow> 'a prog" where
  "gets f w = (Inr (f w), w)"

definition lift :: "error + 'a \<Rightarrow> 'a prog" where
  "lift r w = (r, w)"

text \<open>\<open>try: m finally: f\<close>, for an \<open>f\<close> that does not raise.\<close>

definition finally_do :: "'a prog \<Rightarrow> unit prog \<Rightarrow> 'a prog" where
  "finally_do m f w = (case m w of (r, w') \<Rightarrow> (r, snd (f w')))"

text \<open>\<open>print(text)\<close>\<close>

definition print :: "string \<Rightarrow> unit prog" where
  "print text w = (Inr (), w\<lparr>stdout := stdout w @ [text]\<rparr>)"

definition exists :: "world \<Rightarrow> string \<Rightarrow> bool" where
  "exists w p = (files w p \<noteq> None \<or> p \<in> set (dirs w))"

definition isfile :: "world \<Rightarrow> string \<Rightarrow> bool" where
  "isfile w p = (files w p \<noteq> None)"

text \<open>\<open>os.makedirs(p, exist_ok=True)\<close>\<close>

definition makedirs :: "string \<Rightarrow> unit prog" where
  "makedirs p w = (Inr (), if p \<in> set (dirs w) then w else w\<lparr>dirs := dirs w @ [p]\<rparr>)"

text \<open>\<open>with open(p, 'a') as file: file.write(text)\<close>: the file is created when absent.\<close>

definition append_file :: "string \<Rightarrow> string \<Rightarrow> world \<Rightarrow> world" where
  "append_file p text w =
     w\<lparr>files := (files w)(p \<mapsto> (case files w p of None \<Rightarrow> text | Some old \<Rightarrow> old @ text))\<rparr>"

definition append_text :: "string \<Rightarrow> string \<Rightarrow> unit prog" where
  "append_text p text w = (Inr (), append_file p text w)"

text \<open>\<open>open(p, 'a')\<close> alone: the file is created when absent.\<close>

definition open_append :: "string \<Rightarrow> unit prog" where
  "open_append p w = (Inr (), if files w p = None then w\<lparr>files := (files w)(p \<mapsto> [])\<rparr> else w)"

text \<open>
  \<open>open(p, 'r', encoding='utf-8')\<close> and reading it: a directory cannot be opened, and
  bytes that are not UTF-8 raise. The file is decoded as a whole here; Python decodes it
  block by block while the lines are read.
\<close>

definition read_text :: "string \<Rightarrow> string prog" where
  "read_text p w =
     (case files w p of
        None \<Rightarrow> (Inl (OSError (IsADirectory p)), w)
      | Some content \<Rightarrow>
          if utf8_valid content then (Inr content, w)
          else (Inl (UnicodeDecodeError (InvalidUtf8 content)), w))"

text \<open>
  \<open>exec_create\<close>, \<open>exec_start\<close> and \<open>exec_inspect\<close>: the command is recorded and the
  container's answer to it is returned.
\<close>

definition send :: "call \<Rightarrow> (int \<times> string list) prog" where
  "send cl w = (Inr (container w (trace w) cl), w\<lparr>trace := trace w @ [cl]\<rparr>)"

section \<open>The command executor (manager/dockerManager.py)\<close>

type_synonym ExecResult = "int \<times> string"

text \<open>
  \<open>DockerContainerManager.shell(*command, env, logfile, cwd, check_code)\<close>. Each chunk
  of output is decoded and appended to the log file as it arrives; with no chunk the
  file is not opened, and a chunk that is not UTF-8 on its own raises
  \<open>UnicodeDecodeError\<close>. \<open>if logfile\<close> is false for \<open>None\<close> and for the empty string.
\<close>

fun receive :: "string option \<Rightarrow> string list \<Rightarrow> string \<Rightarrow> string prog" where
  "receive logfile [] contents = ret contents"
| "receive logfile (chunk # chunks) contents =
     (if \<not> utf8_valid chunk then raise (UnicodeDecodeError (InvalidUtf8 chunk))
      else seqE (case logfile of
                   None \<Rightarrow> ret ()
                 | Some lf \<Rightarrow> if lf = [] then ret () else append_text lf chunk)
             (receive logfile chunks (contents @ chunk)))"

definition shell :: "string list \<Rightarrow> (string \<times> string option) list option \<Rightarrow> string option \<Rightarrow>
    string option \<Rightarrow> bool \<Rightarrow> ExecResult prog" where
  "shell command env logfile cwd check_code =
     (let c = shlex_join command in
      catch
        (seqE (logger DEBUG ''Executing command in container: %s'' [S c])
           (bindE (send \<lparr>cmd = c, environment = env, workdir = cwd\<rparr>) (\<lambda>answer.
            bindE (receive logfile (snd answer) []) (\<lambda>contents.
              if check_code \<and> fst answer \<noteq> 0
              then seqE (logger ERROR ''Command failed with exit code %s: %s''
                           [I (fst answer), S c])
                     (raise (RuntimeError (CommandFailed (fst answer) command)))
              else ret (fst answer, contents)))))
        (\<lambda>e. seqE (logger ERROR ''An error occurred while executing the command: %s'' [S c])
                (raise e)))"

text \<open>
  \<open>DockerContainerManager.exec_command(command, log_to_file)\<close> for a command given as
  a string. The output goes to the log file \<open>logs/perf_dbms_TIMESTAMP.log\<close> under the
  working directory, decoded chunk by chunk, or undecoded to the standard output. The
  exit code is returned, never raised; an exception is printed and \<open>None\<close> is returned.
\<close>

fun write_output :: "string list \<Rightarrow> string option \<Rightarrow> unit prog" where
  "write_output [] log_file = ret ()"
| "write_output (chunk # chunks) log_file =
     seqE (case log_file of
             Some p \<Rightarrow>
               if \<not> utf8_valid chunk then raise (UnicodeDecodeError (InvalidUtf8 chunk))
               else append_text p chunk
           | None \<Rightarrow> print chunk)
       (write_output chunks log_file)"

definition exec_command :: "string \<Rightarrow> bool \<Rightarrow> int option prog" where
  "exec_command command log_to_file =
     bindE (gets getcwd) (\<lambda>cwd.
     bindE (gets TIMESTAMP) (\<lambda>ts.
       let log_directory = path_join cwd ''logs'';
           log_file_name = ''perf_dbms_'' @ ts @ ''.log'';
           log_file_path = path_join log_directory log_file_name
       in seqE (if log_to_file
                then seqE (makedirs log_directory)
                       (bindE (gets (\<lambda>w. exists w log_file_path)) (\<lambda>file_already_exists.
                          seqE (open_append log_file_path)
                            (if \<not> file_already_exists
                             then logger INFO
                                    ''Logging Docker command output to {} in 'log' directory''
                                    [S log_file_name]
                             else ret ())))
                else ret ())
            (catch
               (bindE (send \<lparr>cmd = command, environment = None, workdir = None\<rparr>) (\<lambda>answer.
                  seqE (write_output (snd answer)
                          (if log_to_file then Some log_file_path else None))
                    (if fst answer \<noteq> 0
                     then (if contains ''db_installer.sh'' command \<and> fst answer = 127
                           then seqE (logger WARNING
                                  ''Ignoring error code 127 from db_installer.sh due to missing systemctl''
                                  [])
                                  (ret (Some 0))
                           else seqE (logger ERROR ''Command '{}' failed with exit code {}.''
                                       [S command, I (fst answer)])
                                  (ret (Some (fst answer))))
                     else ret (Some (fst answer)))))
               (\<lambda>e. seqE (print ''Error during command execution: {}'') (ret None)))))"

section \<open>Database instance and binary runner (upgrade/database.py)\<close>

text \<open>
  The executor a \<open>Database\<close> refers to is the one container of the run, so the record
  has no field for it. The placeholder for the old database has no version and no
  binaries path.
\<close>

record Database =
  db_version :: "DbVersion option"
  bin_path :: "string option"
  data_path :: string
  logs_dir :: string

record NexusEnv =
  NEXUS_USER :: "string option"
  NEXUS_USER_PASSWORD :: "string option"
  NEXUS_URL :: "string option"

text \<open>How Python formats \<open>db.version\<close> in a message or a file name.\<close>

definition str_version :: "DbVersion option \<Rightarrow> string" where
  "str_version v = (case v of None \<Rightarrow> ''None'' | Some x \<Rightarrow> str_DbVersion x)"

text \<open>\<open>not value\<close> for an optional string.\<close>

definition falsy :: "string option \<Rightarrow> bool" where
  "falsy v = (v = None \<or> v = Some [])"

text \<open>\<open>NexusEnv.from_env(db_type)\<close>\<close>

definition from_env :: "string \<Rightarrow> NexusEnv prog" where
  "from_env dbt =
     bindE (gets environ) (\<lambda>environment_variables.
       case filter (\<lambda>key. falsy (environment_variables key) \<and> dbt = ''ttdb'')
              [''NEXUS_USER'', ''NEXUS_USER_PASSWORD'', ''NEXUS_URL''] of
         key # _ \<Rightarrow> raise (KeyError (NexusSettingNotSet key))
       | [] \<Rightarrow> ret \<lparr>NEXUS_USER = environment_variables ''NEXUS_USER'',
                     NEXUS_USER_PASSWORD = environment_variables ''NEXUS_USER_PASSWORD'',
                     NEXUS_URL = environment_variables ''NEXUS_URL''\<rparr>)"

text \<open>\<open>nexus_env.__dict__\<close>\<close>

definition nexus_dict :: "NexusEnv \<Rightarrow> (string \<times> string option) list" where
  "nexus_dict n = [(''NEXUS_USER'', NEXUS_USER n),
                   (''NEXUS_USER_PASSWORD'', NEXUS_USER_PASSWORD n),
                   (''NEXUS_URL'', NEXUS_URL n)]"

text \<open>A path that is \<open>None\<close> makes \<open>os.path.join\<close> raise.\<close>

definition need_path :: "string option \<Rightarrow> string prog" where
  "need_path p = (case p of None \<Rightarrow> raise (TypeError NoneAsPath) | Some x \<Rightarrow> ret x)"

definition get_pg_binary :: "Database \<Rightarrow> string \<Rightarrow> string prog" where
  "get_pg_binary db binary = bindE (need_path (bin_path db)) (\<lambda>b. ret (path_join b binary))"

definition get_log_file :: "Database \<Rightarrow> string \<Rightarrow> string" where
  "get_log_file db logfilename = path_join (logs_dir db) logfilename"

text \<open>\<open>run_pg_binary(db, binary, *args)\<close>\<close>

definition run_pg_binary :: "Database \<Rightarrow> string \<Rightarrow> string list \<Rightarrow> string prog" where
  "run_pg_binary db binary args =
     (let logfilename = binary @ ''_'' @ str_version (db_version db) @ ''.log'';
          logfile = get_log_file db logfilename
      in bindE (get_pg_binary db binary) (\<lambda>b.
         let command = shlex_join (b # args)
         in seqE (logger DEBUG ''Executing: %s'' [S command])
              (catch
                 (bindE (shell [''su'', ''-'', ''postgres'', ''-c'', command]
                           None (Some logfile) (Some (data_path db)) True)
                    (\<lambda>r. ret (snd r)))
                 (\<lambda>e. seqE (logger WARNING ''Failed to execute %s. See errors in logfile: %s''
                               [S binary, S logfile])
                        (seqE (if binary = ''pg_upgrade''
                               then (let error_logs_dir =
                                           path_join (logs_dir db) ''additionally_errors_logs''
                                     in seq_all
                                       [seqE (shell [''mkdir'', ''-p'', error_logs_dir]
                                                None None None True) (ret ()),
                                        seqE (shell [''bash'', ''-c'',
                                                ''cp -r '' @ data_path db @
                                                ''/pg_upgrade_output.d/*/log/* '' @ error_logs_dir]
                                                None None None True) (ret ()),
                                        seqE (shell [''find'', error_logs_dir, ''-type'', ''d'',
                                                ''-exec'', ''chmod'', ''775'', ''{}'', ''+'']
                                                None None None True) (ret ()),
                                        seqE (shell [''find'', error_logs_dir, ''-type'', ''f'',
                                                ''-exec'', ''chmod'', ''664'', ''{}'', ''+'']
                                                None None None True) (ret ())])
                               else ret ())
                           (raise e))))))"

definition initdb :: "Database \<Rightarrow> string list \<Rightarrow> unit prog" where
  "initdb db args = seqE (run_pg_binary db ''initdb'' ([''-D'', data_path db] @ args)) (ret ())"

definition pg_ctl :: "Database \<Rightarrow> string \<Rightarrow> string list \<Rightarrow> unit prog" where
  "pg_ctl db command args =
     seqE (run_pg_binary db ''pg_ctl'' ([''-D'', data_path db, command] @ args)) (ret ())"

definition run_db :: "Database \<Rightarrow> unit prog" where
  "run_db db =
     seqE (logger INFO ''Starting PostgreSQL (%s)'' [S (str_version (db_version db))])
       (pg_ctl db ''start'' [])"

definition stop_db :: "Database \<Rightarrow> unit prog" where
  "stop_db db =
     seqE (logger INFO ''Stopping PostgreSQL (%s)'' [S (str_version (db_version db))])
       (pg_ctl db ''stop'' [])"

text \<open>
  \<open>run_sql_script(db, script_path)\<close>. The scan stops at the first line of the log file
  that contains the marker.
\<close>

definition run_sql_script :: "Database \<Rightarrow> string \<Rightarrow> unit prog" where
  "run_sql_script db script_path =
     (let binary = ''psql'';
          logfilename = binary @ ''_'' @ str_version (db_version db) @ ''.log'';
          logfile = get_log_file db logfilename
      in seqE (logger INFO ''Running SQL script %s (%s)''
                 [S script_path, S (str_version (db_version db))])
           (seqE (run_pg_binary db binary [''-f'', script_path])
              (bindE (gets (\<lambda>w. exists w logfile)) (\<lambda>found.
                 if found
                 then bindE (read_text logfile) (\<lambda>content.
                        case filter (contains ''ERROR:'') (file_lines content) of
                          [] \<Rightarrow> ret ()
                        | line # _ \<Rightarrow>
                            seqE (logger ERROR ''Error found in SQL script execution log: %s''
                                    [S (strip line)])
                              (raise (RuntimeError
                                 (ErrorFoundDuringExecution script_path logfile))))
                 else logger WARNING ''Logfile %s not found for analysis'' [S logfile]))))"

text \<open>The command that \<open>run_sql_script\<close> sends for a database with binaries path \<open>b\<close>.\<close>

definition psql_call :: "Database \<Rightarrow> string \<Rightarrow> string \<Rightarrow> call" where
  "psql_call db b script_path =
     \<lparr>cmd = shlex_join [''su'', ''-'', ''postgres'', ''-c'',
                         shlex_join [path_join b ''psql'', ''-f'', script_path]],
      environment = None, workdir = Some (data_path db)\<rparr>"

definition run_shell_script :: "Database \<Rightarrow> string \<Rightarrow> unit prog" where
  "run_shell_script db script =
     (let script_name = splitext_root (basename script);
          logfilename = get_log_file db (''shell_'' @ script_name @ ''.log'')
      in seqE (logger DEBUG ''Executing shell script: %s'' [S script])
           (seqE (shell [''bash'', script] (Some [(''DB_PATH'', Some (data_path db))])
                    (Some logfilename) (bin_path db) True)
              (ret ())))"

text \<open>
  \<open>shlex.join\<close> quotes an argument that is \<open>None\<close> as it quotes the empty word, so
  \<open>None\<close> is passed on as the empty word.
\<close>

definition none_word :: "string option \<Rightarrow> string" where
  "none_word p = (case p of None \<Rightarrow> [] | Some x \<Rightarrow> x)"

definition pg_upgrade :: "Database \<Rightarrow> Database \<Rightarrow> unit prog" where
  "pg_upgrade new old =
     seqE (logger INFO ''Running pg_upgrade from %s to %s''
             [S (str_version (db_version old)), S (str_version (db_version new))])
       (seqE (shell [''cp'', data_path old @ ''/postgresql.conf'', data_path new]
                None None None True)
          (bindE (run_pg_binary new ''pg_upgrade''
                    [''-b'', none_word (bin_path old), ''-B'', none_word (bin_path new),
                     ''-d'', data_path old, ''-D'', data_path new])
             (\<lambda>result.
                let script = ''update_extensions.sql''
                in if contains script result
                   then seqE (logger INFO ''Running %s script to update extensions'' [S script])
                          (seqE (run_db new) (seqE (run_sql_script new script) (stop_db new)))
                   else ret ())))"

definition pg_dumpall :: "Database \<Rightarrow> string \<Rightarrow> unit prog" where
  "pg_dumpall db dump_file =
     seqE (logger INFO ''Running pg_dumpall (%s)'' [S (str_version (db_version db))])
       (seqE (run_pg_binary db ''pg_dumpall'' [''-f'', dump_file]) (ret ()))"

text \<open>\<open>get_bin_dir(docker_manager, version, package_path)\<close>\<close>

definition get_bin_dir :: "DbVersion \<Rightarrow> string option \<Rightarrow> string prog" where
  "get_bin_dir v package_path =
     (if db_type v = ''ttdb'' then
        seqE (logger INFO ''Installation path for {}:{} is /opt/tantor/db/{}/bin''
                [S (db_type v), S (version v), S (major v)])
          (ret (''/opt/tantor/db/'' @ major v @ ''/bin''))
      else if db_type v = ''pgdg'' then
        (let dflt = ret (''/usr/local/pgsql/'' @ major v @ ''/bin'')
         in if \<not> falsy package_path then
              (let file_path = ''/tmp/pg_install_path_'' @ major v @ ''.txt''
               in bindE
                    (catch
                       (bindE (shell [''cat'', file_path] None None None False) (\<lambda>result.
                          if fst result = 0 \<and> strip (snd result) \<noteq> []
                          then seqE (logger INFO ''Installation path for {}:{} is {}''
                                       [S (db_type v), S (version v), S (strip (snd result))])
                                 (ret (Some (path_join (strip (snd result)) ''bin'')))
                          else ret None))
                       (\<lambda>e. seqE (logger WARNING ''Error reading install path from %s: %s''
                                     [S file_path])
                              (ret None)))
                    (\<lambda>found. case found of Some p \<Rightarrow> ret p | None \<Rightarrow> dflt))
            else dflt)
      else raise (ValueError (UnsupportedDbType (db_type v))))"

text \<open>
  \<open>re.search(r'Version:\s*(\S+)', output)\<close>: group 1 of the first place where
  \<open>Version:\<close> is followed, after any whitespace, by a character that is not whitespace.
\<close>

fun search_version :: "string \<Rightarrow> string option" where
  "search_version [] = None"
| "search_version (c # cs) =
     (if take 8 (c # cs) = ''Version:'' \<and> dropWhile is_space (drop 8 (c # cs)) \<noteq> []
      then Some (takeWhile (\<lambda>x. \<not> is_space x) (dropWhile is_space (drop 8 (c # cs))))
      else search_version cs)"

text \<open>\<open>package_version.split('-')[0]\<close>\<close>

definition split_dash_first :: "string \<Rightarrow> string" where
  "split_dash_first s = takeWhile (\<lambda>c. c \<noteq> CHR ''-'') s"

definition verify_package_version :: "string \<Rightarrow> DbVersion \<Rightarrow> unit prog" where
  "verify_package_version package_path v =
     seqE (logger INFO ''Verifying package version for %s'' [S package_path])
       (bindE (shell [''dpkg'', ''-I'', package_path] None None None False) (\<lambda>result.
          if fst result \<noteq> 0 then raise (RuntimeError (FailedToInspectPackage package_path))
          else (case search_version (snd result) of
                  None \<Rightarrow> raise (RuntimeError (FailedToParsePackageVersion package_path))
                | Some package_version \<Rightarrow>
                    if db_type v = ''pgdg'' then
                      (if split_dash_first package_version \<noteq> version v
                       then raise (RuntimeError (PackageVersionMismatch package_version (version v)))
                       else ret ())
                    else
                      (if package_version \<noteq> version v
                       then raise (RuntimeError (PackageVersionMismatch package_version (version v)))
                       else ret ()))))"

text \<open>\<open>run_db_installer(...)\<close>: every installer command goes through \<open>shell\<close>.\<close>

definition run_db_installer :: "string \<Rightarrow> string \<Rightarrow> DbVersion \<Rightarrow> string \<Rightarrow> NexusEnv \<Rightarrow>
    string option \<Rightarrow> string \<Rightarrow> unit prog" where
  "run_db_installer db_installer pgdg_installer v db_logs_dir nexus_env package_path dbt =
     (let logfilename = path_join db_logs_dir (dbt @ ''_installer_'' @ str_DbVersion v @ ''.log'');
          run = (\<lambda>command env_vars.
                   catch (seqE (shell command env_vars (Some logfilename) None True) (ret ()))
                     (\<lambda>e. seqE (logger ERROR ''Failed to execute installer. See log in %s''
                                   [S logfilename])
                            (raise e)))
      in if dbt = ''pgdg'' then
           (case (if falsy package_path then None else package_path) of
              Some pkg \<Rightarrow>
                seqE (logger INFO ''Running pgdg_installer for %s (from package)'' [S (str_DbVersion v)])
                  (seqE (verify_package_version pkg v)
                     (run [pgdg_installer, ''--from-file='' @ pkg] None))
            | None \<Rightarrow>
                seqE (logger INFO ''Running pgdg_installer for %s'' [S (str_DbVersion v)])
                  (run [pgdg_installer, ''--maintenance-version='' @ version v,
                        ''--install-path=/usr/local/pgsql/'' @ major v] None))
         else
           (case (if falsy package_path then None else package_path) of
              Some pkg \<Rightarrow>
                seqE (logger INFO ''Running db_installer for %s (from package)'' [S (str_DbVersion v)])
                  (seqE (verify_package_version pkg v)
                     (run [db_installer, ''--from-file='' @ pkg]
                        (Some [(''DEBIAN_FRONTEND'', Some ''noninteractive'')])))
            | None \<Rightarrow>
                seqE (logger INFO ''Running db_installer for %s'' [S (str_DbVersion v)])
                  (run [db_installer,
                        ''--edition='' @ (case edition v of None \<Rightarrow> ''None'' | Some e \<Rightarrow> e),
                        ''--maintenance-version='' @ version v,
                        ''--major-version='' @ major v]
                     (Some (nexus_dict nexus_env)))))"

text \<open>\<open>create_db(...)\<close>: the new instance gets the data path it is given.\<close>

definition create_db :: "string \<Rightarrow> string \<Rightarrow> string \<Rightarrow> DbVersion \<Rightarrow> NexusEnv \<Rightarrow> string \<Rightarrow>
    string \<Rightarrow> string option \<Rightarrow> Database prog" where
  "create_db db_installer logs db_path v nexus_env dbt pgdg_installer package_path =
     (let db_logs_dir = path_join logs (''logs_'' @ str_DbVersion v)
      in seqE (makedirs db_logs_dir)
           (seqE (run_db_installer db_installer pgdg_installer v db_logs_dir nexus_env
                    package_path dbt)
              (bindE (get_bin_dir v package_path) (\<lambda>bin.
                 ret \<lparr>db_version = Some v, bin_path = Some bin, data_path = db_path,
                      logs_dir = db_logs_dir\<rparr>))))"

section \<open>Manifest (src/manifest.py)\<close>

datatype MigrationStrategy = PG_DUMPALL | PG_UPGRADE | MINOR

text \<open>\<open>ScriptList = Union[str, List[str], None]\<close>\<close>

datatype ScriptList = SNone | SStr string | SList "string list"

record MigrationStep =
  s_type :: MigrationStrategy
  s_db_version :: string
  s_db_edition :: "string option"
  s_package :: "string option"
  s_pre_scripts :: ScriptList
  s_post_scripts :: ScriptList
  s_verifiers :: ScriptList

record MigrationManifest =
  steps :: "MigrationStep list"
  m_db_type :: string
  m_db_version :: string
  m_db_edition :: "string option"
  m_package :: "string option"
  initial_setup_script :: "string option"
  initial_pre_scripts :: ScriptList
  initial_post_scripts :: ScriptList
  m_pre_scripts :: ScriptList
  m_post_scripts :: ScriptList
  m_verifiers :: ScriptList

text \<open>Truth value of a script list: \<open>None\<close>, the empty string and the empty list are false.\<close>

fun truthy :: "ScriptList \<Rightarrow> bool" where
  "truthy SNone = False"
| "truthy (SStr s) = (s \<noteq> [])"
| "truthy (SList l) = (l \<noteq> [])"

text \<open>\<open>a or b\<close>\<close>

definition py_or :: "ScriptList \<Rightarrow> ScriptList \<Rightarrow> ScriptList" where
  "py_or a b = (if truthy a then a else b)"

section \<open>Migration runner (upgrade/migration.py)\<close>

record Environment =
  tmp_dir :: string
  env_new_db :: string
  env_old_db :: string
  env_logs_dir :: string
  scripts_dir :: "string option"
  packages_dir :: "string option"
  db_installer :: string
  pgdg_installer :: string

definition get_script :: "Environment \<Rightarrow> string \<Rightarrow> string prog" where
  "get_script env script_name =
     bindE (need_path (scripts_dir env)) (\<lambda>d.
       let path = path_join d script_name
       in bindE (gets (\<lambda>w. isfile w path)) (\<lambda>found.
            if \<not> found then raise (FileNotFoundError (ScriptNotFound path))
            else gets (\<lambda>w. abspath w path)))"

definition get_package :: "Environment \<Rightarrow> string \<Rightarrow> string prog" where
  "get_package env package_name =
     bindE (need_path (packages_dir env)) (\<lambda>d.
       let path = path_join d package_name
       in bindE (gets (\<lambda>w. isfile w path)) (\<lambda>found.
            if \<not> found then raise (FileNotFoundError (PackageNotFound path))
            else gets (\<lambda>w. abspath w path)))"

definition get_temp_filename :: "Environment \<Rightarrow> string \<Rightarrow> string" where
  "get_temp_filename env filename = path_join (tmp_dir env) filename"

text \<open>The fields of a \<open>MigrationRunner\<close> that do not change, and its \<open>state\<close>.\<close>

record runner =
  manifest :: MigrationManifest
  env :: Environment
  nexus_env :: NexusEnv

record State =
  old_db :: Database
  new_db :: Database
  step :: "MigrationStep option"

text \<open>\<open>self.env.get_package(package) if package else None\<close>\<close>

definition package_path_of :: "Environment \<Rightarrow> string option \<Rightarrow> string option prog" where
  "package_path_of e package =
     (case package of
        None \<Rightarrow> ret None
      | Some p \<Rightarrow> if p = [] then ret None else bindE (get_package e p) (\<lambda>x. ret (Some x)))"

definition clean_db_directory :: "string \<Rightarrow> unit prog" where
  "clean_db_directory db_path =
     seq_all
       [seqE (shell [''rm'', ''-rf'', db_path] None None None True) (ret ()),
        seqE (shell [''mkdir'', ''-p'', db_path] None None None True) (ret ()),
        seqE (shell [''chmod'', ''0700'', db_path] None None None True) (ret ()),
        seqE (shell [''chown'', ''postgres:postgres'', db_path] None None None True) (ret ())]"

definition create_initial_state :: "runner \<Rightarrow> State prog" where
  "create_initial_state r =
     seqE (logger INFO ''Creating initial database'' [])
       (bindE (lift (create (m_db_version (manifest r)) (m_db_edition (manifest r))
                       (m_db_type (manifest r)))) (\<lambda>initial_version.
        bindE (package_path_of (env r) (m_package (manifest r))) (\<lambda>initial_package_path.
        bindE (create_db (db_installer (env r)) (env_logs_dir (env r))
                 (env_new_db (env r)) initial_version (nexus_env r)
                 (m_db_type (manifest r)) (pgdg_installer (env r))
                 initial_package_path) (\<lambda>initial_db.
          let old = \<lparr>db_version = None, bin_path = None,
                     data_path = env_old_db (env r), logs_dir = env_logs_dir (env r)\<rparr>
          in seqE (clean_db_directory (data_path initial_db))
               (seqE (clean_db_directory (data_path old))
                  (seqE (initdb initial_db [])
                     (ret \<lparr>old_db = old, new_db = initial_db, step = None\<rparr>)))))))"

text \<open>
  \<open>prepare_step(step)\<close>: the data of the new slot is moved to the path of the old slot,
  the instance of the new slot takes that path and becomes the old slot, and the step's
  version is installed into a new instance at \<open>env.new_db\<close>.
\<close>

definition prepare_step :: "runner \<Rightarrow> State \<Rightarrow> MigrationStep \<Rightarrow> State prog" where
  "prepare_step r st sp =
     (let old_data = data_path (old_db st);
          new_data = data_path (new_db st)
      in seqE (shell [''rm'', ''-rf'', old_data] None None None True)
           (seqE (shell [''mv'', new_data, old_data] None None None True)
              (let st1 = st\<lparr>new_db := (new_db st)\<lparr>data_path := old_data\<rparr>\<rparr>;
                   st2 = st1\<lparr>old_db := new_db st1, new_db := old_db st1\<rparr>
               in bindE (lift (create (s_db_version sp) (s_db_edition sp)
                                 (m_db_type (manifest r)))) (\<lambda>new_version.
                  bindE (package_path_of (env r) (s_package sp)) (\<lambda>new_package_path.
                  bindE (create_db (db_installer (env r)) (env_logs_dir (env r))
                           (env_new_db (env r)) new_version (nexus_env r)
                           (m_db_type (manifest r)) (pgdg_installer (env r))
                           new_package_path) (\<lambda>created.
                    ret (st2\<lparr>new_db := created, step := Some sp\<rparr>)))))))"

definition initialize_db_cluster :: "State \<Rightarrow> unit prog" where
  "initialize_db_cluster st =
     seqE (shell [''mkdir'', ''-p'', data_path (new_db st)] None None None True)
       (seqE (shell [''chown'', ''postgres:postgres'', data_path (new_db st)] None None None True)
          (seqE (logger INFO ''Initializing PostgreSQL (%s) cluster''
                   [S (str_version (db_version (new_db st)))])
             (initdb (new_db st) [])))"

text \<open>The methods \<open>run_db\<close> and \<open>stop_db\<close> of the runner act on the new slot.\<close>

definition runner_run_db :: "State \<Rightarrow> unit prog" where
  "runner_run_db st =
     seqE (logger INFO ''Starting PostgreSQL (%s)'' [S (str_version (db_version (new_db st)))])
       (run_db (new_db st))"

definition runner_stop_db :: "State \<Rightarrow> unit prog" where
  "runner_stop_db st = stop_db (new_db st)"

definition run_psql_script :: "runner \<Rightarrow> State \<Rightarrow> string \<Rightarrow> unit prog" where
  "run_psql_script r st script =
     bindE (get_script (env r) script) (\<lambda>script_path.
       seqE (logger INFO ''Running SQL script %s (%s)''
               [S script, S (str_version (db_version (new_db st)))])
         (run_sql_script (new_db st) script_path))"

definition runner_run_shell_script :: "runner \<Rightarrow> State \<Rightarrow> string \<Rightarrow> unit prog" where
  "runner_run_shell_script r st script =
     bindE (get_script (env r) script) (\<lambda>script_path.
       seqE (logger INFO ''Running shell script %s (%s)''
               [S script, S (str_version (db_version (new_db st)))])
         (run_shell_script (new_db st) script_path))"

fun extract_plain_script_list :: "ScriptList \<Rightarrow> string list option" where
  "extract_plain_script_list SNone = None"
| "extract_plain_script_list (SStr s) = (if s = [] then None else Some [s])"
| "extract_plain_script_list (SList l) = (if l = [] then None else Some l)"

definition run_scripts :: "runner \<Rightarrow> State \<Rightarrow> ScriptList \<Rightarrow> string \<Rightarrow> unit prog" where
  "run_scripts r st scripts stage =
     (if \<not> truthy scripts then ret ()
      else (case extract_plain_script_list scripts of
              None \<Rightarrow> ret ()
            | Some script_list \<Rightarrow>
                if script_list = [] then ret ()
                else seqE (logger INFO ''Running stage: %s'' [S stage])
                       (seqE (runner_run_db st)
                          (seqE (seq_all (map (\<lambda>script.
                                    if endswith script ''.sql'' then run_psql_script r st script
                                    else runner_run_shell_script r st script) script_list))
                             (runner_stop_db st)))))"

text \<open>\<open>self.state['step']\<close> is \<open>None\<close> until the first \<open>prepare_step\<close>.\<close>

definition need_step :: "State \<Rightarrow> MigrationStep prog" where
  "need_step st =
     (case step st of None \<Rightarrow> raise (AttributeError (NoneAttribute ''step'')) | Some sp \<Rightarrow> ret sp)"

definition need_version :: "Database \<Rightarrow> DbVersion prog" where
  "need_version db =
     (case db_version db of
        None \<Rightarrow> raise (AttributeError (NoneAttribute ''major'')) | Some v \<Rightarrow> ret v)"

definition run_pre_step :: "runner \<Rightarrow> State \<Rightarrow> unit prog" where
  "run_pre_step r st =
     bindE (need_step st) (\<lambda>sp.
       let pre_scripts =
             (if s_type sp = MINOR
              then py_or (initial_pre_scripts (manifest r)) (m_pre_scripts (manifest r))
              else py_or (s_pre_scripts sp) (m_pre_scripts (manifest r)))
       in run_scripts r st pre_scripts ''pre'')"

text \<open>
  The class defines \<open>run_post_step\<close> twice. The first definition is replaced by the
  second when the class body is evaluated, so every call runs the second one.
\<close>

definition run_post_step_first :: "runner \<Rightarrow> State \<Rightarrow> unit prog" where
  "run_post_step_first r st =
     bindE (need_step st) (\<lambda>sp.
       let post_scripts =
             (if s_type sp = MINOR
              then py_or (initial_post_scripts (manifest r)) (m_post_scripts (manifest r))
              else py_or (s_post_scripts sp) (m_post_scripts (manifest r)))
       in run_scripts r st post_scripts ''post'')"

definition run_post_step :: "runner \<Rightarrow> State \<Rightarrow> unit prog" where
  "run_post_step r st =
     bindE (need_step st) (\<lambda>sp.
       let step_scripts = py_or (s_post_scripts sp) (m_post_scripts (manifest r))
       in run_scripts r st step_scripts ''post'')"

definition run_verifier :: "runner \<Rightarrow> State \<Rightarrow> unit prog" where
  "run_verifier r st =
     bindE (need_step st) (\<lambda>sp.
       let step_scripts = py_or (s_verifiers sp) (m_verifiers (manifest r))
       in run_scripts r st step_scripts ''verifier'')"

definition run_minor :: "runner \<Rightarrow> State \<Rightarrow> unit prog" where
  "run_minor r st =
     seqE (run_pre_step r st)
       (bindE (need_version (old_db st)) (\<lambda>old_v.
        bindE (need_version (new_db st)) (\<lambda>new_v.
          if major old_v \<noteq> major new_v
          then raise (ValueError (MinorMajorMismatch (major old_v) (major new_v)))
          else (let old_data = data_path (old_db st);
                    new_data = data_path (new_db st)
                in seqE (seq_all
                     [seqE (shell [''rm'', ''-rf'', new_data] None None None True) (ret ()),
                      seqE (shell [''mv'', old_data, new_data] None None None True) (ret ()),
                      seqE (shell [''mkdir'', ''-p'', old_data] None None None True) (ret ()),
                      seqE (shell [''chmod'', ''0700'', old_data] None None None True) (ret ()),
                      seqE (shell [''chown'', ''postgres:postgres'', old_data]
                              None None None True) (ret ())])
                   (seqE (runner_run_db st)
                      (seqE (runner_stop_db st) (run_post_step r st)))))))"

definition run_pg_upgrade :: "State \<Rightarrow> unit prog" where
  "run_pg_upgrade st = pg_upgrade (new_db st) (old_db st)"

definition copy_configuration_files :: "string \<Rightarrow> string \<Rightarrow> unit prog" where
  "copy_configuration_files old_data_path new_data_path =
     seq_all (map (\<lambda>filename.
        catch (seqE (shell [''cp'', path_join old_data_path filename,
                            path_join new_data_path filename] None None None True) (ret ()))
          (\<lambda>e. seqE (logger ERROR ''Failed to copy %s to new db: %s'' [S filename])
                 (raise (RuntimeError (FailedToCopy filename)))))
        [''postgresql.conf'', ''postgresql.auto.conf'', ''pg_hba.conf''])"

definition run_pg_dumpall :: "runner \<Rightarrow> State \<Rightarrow> unit prog" where
  "run_pg_dumpall r st =
     (let new = new_db st; old = old_db st;
          new_version = str_version (db_version new);
          old_version = str_version (db_version old);
          dump_file = get_temp_filename (env r) (''dump_'' @ old_version @ ''.sql'')
      in seq_all
           [logger INFO ''Starting PostgreSQL (%s) cluster'' [S old_version],
            run_db old,
            logger INFO ''Running pg_dumpall (%s)'' [S new_version],
            pg_dumpall new dump_file,
            logger INFO ''Stopping PostgreSQL (%s) cluster'' [S old_version],
            stop_db old,
            logger INFO ''Copying configuration files from %s to %s'' [S old_version, S new_version],
            copy_configuration_files (data_path old) (data_path new),
            logger INFO ''Starting PostgreSQL (%s) cluster'' [S new_version],
            run_db new,
            logger INFO ''Running psql (%s) for loading DB dump'' [S new_version],
            run_sql_script new dump_file,
            logger INFO ''Stopping PostgreSQL (%s) cluster'' [S new_version],
            stop_db new])"

text \<open>
  \<open>run_step()\<close>. The strategy is one of the three values of the enumeration, so the
  branch that raises \<open>NotImplementedError\<close> is not reached.
\<close>

definition run_step :: "runner \<Rightarrow> State \<Rightarrow> unit prog" where
  "run_step r st =
     bindE (need_step st) (\<lambda>sp.
       seqE (if s_type sp = MINOR then run_minor r st
             else seqE (initialize_db_cluster st)
                    (seqE (run_pre_step r st)
                       (seqE (if s_type sp = PG_UPGRADE then run_pg_upgrade st
                              else if s_type sp = PG_DUMPALL then run_pg_dumpall r st
                              else raise (NotImplementedError StrategyNotImplemented))
                          (run_post_step r st))))
         (run_verifier r st))"

text \<open>The loop of \<open>MigrationRunner.run_migration\<close> over the steps of the manifest.\<close>

fun run_steps :: "runner \<Rightarrow> State \<Rightarrow> MigrationStep list \<Rightarrow> State prog" where
  "run_steps r st [] = ret st"
| "run_steps r st (sp # sps) =
     bindE (prepare_step r st sp) (\<lambda>st'. seqE (run_step r st') (run_steps r st' sps))"

definition runner_run_migration :: "runner \<Rightarrow> State prog" where
  "runner_run_migration r =
     bindE (create_initial_state r) (\<lambda>st. run_steps r st (steps (manifest r)))"

text \<open>\<open>run_migration(manifest, docker_manager, env)\<close>: builds the runner and runs it.\<close>

definition run_migration :: "MigrationManifest \<Rightarrow> Environment \<Rightarrow> State prog" where
  "run_migration m e =
     bindE (from_env (m_db_type m)) (\<lambda>n.
       runner_run_migration \<lparr>manifest = m, env = e, nexus_env = n\<rparr>)"

section \<open>Preparing the run (upgrade/upgrade.py)\<close>

fun iter_script_list :: "ScriptList \<Rightarrow> string list" where
  "iter_script_list SNone = []"
| "iter_script_list (SStr s) = (if s = [] then [] else [s])"
| "iter_script_list (SList l) = l"

definition iter_scripts :: "MigrationManifest \<Rightarrow> string list" where
  "iter_scripts m =
     concat (map iter_script_list [m_pre_scripts m, m_post_scripts m, m_verifiers m]) @
     concat (map (\<lambda>sp. concat (map iter_script_list
                                  [s_pre_scripts sp, s_post_scripts sp, s_verifiers sp]))
               (steps m))"

definition check_scripts_exist :: "string \<Rightarrow> MigrationManifest \<Rightarrow> unit prog" where
  "check_scripts_exist scripts_path m =
     bindE (gets (\<lambda>w. filter (\<lambda>script_path. \<not> exists w script_path)
                        (map (path_join scripts_path)
                           (filter (\<lambda>script. script \<noteq> []) (iter_scripts m)))))
       (\<lambda>missing_scripts.
          if missing_scripts \<noteq> []
          then raise (FileNotFoundError (ScriptFilesNotFound missing_scripts))
          else ret ())"

definition check_packages_exist :: "string \<Rightarrow> MigrationManifest \<Rightarrow> unit prog" where
  "check_packages_exist pdir m =
     (let package_files =
            (if falsy (m_package m) then [] else [none_word (m_package m)]) @
            map (\<lambda>sp. none_word (s_package sp)) (filter (\<lambda>sp. \<not> falsy (s_package sp)) (steps m))
      in bindE (gets (\<lambda>w. filter (\<lambda>path. \<not> isfile w path) (map (path_join pdir) package_files)))
           (\<lambda>absent. case absent of
                        [] \<Rightarrow> ret ()
                      | path # _ \<Rightarrow> raise (FileNotFoundError (PackageNotFound path))))"

definition has_scripts :: "MigrationManifest \<Rightarrow> bool" where
  "has_scripts m =
     (list_ex truthy [m_pre_scripts m, m_post_scripts m, m_verifiers m,
                      initial_pre_scripts m, initial_post_scripts m]
      \<or> \<not> falsy (initial_setup_script m)
      \<or> list_ex (\<lambda>sp. list_ex truthy [s_pre_scripts sp, s_post_scripts sp, s_verifiers sp])
           (steps m))"

definition has_packages :: "MigrationManifest \<Rightarrow> bool" where
  "has_packages m = (\<not> falsy (m_package m) \<or> list_ex (\<lambda>sp. \<not> falsy (s_package sp)) (steps m))"

definition prepare_environment :: "string \<Rightarrow> MigrationManifest \<Rightarrow> Environment prog" where
  "prepare_environment scenario_path m =
     bindE (gets abspath) (\<lambda>absolute.
     bindE (gets TIMESTAMP) (\<lambda>ts.
       let tmp = ''/tmp'';
           new = absolute (path_join tmp ''new_data'');
           old = absolute (path_join tmp ''old_data'');
           sdir = absolute (path_join scenario_path ''scripts'');
           pdir = absolute (path_join scenario_path ''packages'');
           logs = absolute (path_join ''logs'' (''upgrade_dbms_'' @ ts))
       in seqE (if has_scripts m then check_scripts_exist sdir m else ret ())
            (seqE (if has_packages m then check_packages_exist pdir m else ret ())
               (seqE (makedirs logs)
                  (seqE (logger DEBUG ''Logs directory is set to %s'' [S logs])
                     (ret \<lparr>tmp_dir = tmp, env_new_db = new, env_old_db = old,
                           env_logs_dir = logs,
                           scripts_dir = (if has_scripts m then Some sdir else None),
                           packages_dir = (if has_packages m then Some pdir else None),
                           db_installer = absolute ''db_installer.sh'',
                           pgdg_installer = absolute ''src/pgdg_installer.sh''\<rparr>))))))"

text \<open>
  \<open>create_docker_manager\<close>: building the manager and starting the container are the
  first operations on the container; they are recorded as events.
\<close>

definition emit :: "docker_event \<Rightarrow> unit prog" where
  "emit ev w = (Inr (), w\<lparr>docker := docker w @ [ev]\<rparr>)"

definition start_docker_manager :: "unit prog" where
  "start_docker_manager =
     seqE (logger DEBUG ''Creating container'' [])
       (seqE (emit ManagerCreated)
          (seqE (logger DEBUG ''Starting Docker container'' [])
             (emit ContainerStarted)))"

definition chmod_if_exists :: "string option \<Rightarrow> string \<Rightarrow> unit prog" where
  "chmod_if_exists d mode =
     (case d of
        None \<Rightarrow> ret ()
      | Some p \<Rightarrow>
          bindE (gets (\<lambda>w. exists w p)) (\<lambda>found.
            if p \<noteq> [] \<and> found
            then seqE (shell [''chmod'', ''-R'', mode, p] None None None True) (ret ())
            else ret ()))"

definition prepare_container_env :: "Environment \<Rightarrow> string \<Rightarrow> unit prog" where
  "prepare_container_env e dbt =
     seqE (seq_all (map (\<lambda>d. bindE (gets (\<lambda>w. exists w d)) (\<lambda>found.
                               if found
                               then seqE (shell [''rm'', ''-rf'', d] None None None True) (ret ())
                               else ret ()))
                     [env_new_db e, env_old_db e]))
       (seqE (if dbt = ''ttdb''
              then seq_all
                     [logger DEBUG ''Downloading db_installer.sh'' [],
                      seqE (shell [''apt-get'', ''update''] None None None True) (ret ()),
                      seqE (shell [''apt-get'', ''install'', ''-y'', ''wget'']
                              None None None True) (ret ()),
                      seqE (shell [''wget'', ''https://public.tantorlabs.ru/db_installer.sh'',
                                   ''-O'', db_installer e] None None None True) (ret ()),
                      seqE (shell [''chmod'', ''+x'', db_installer e] None None None True) (ret ())]
              else ret ())
          (seqE (chmod_if_exists (scripts_dir e) ''+x'')
             (chmod_if_exists (packages_dir e) ''+r'')))"

text \<open>
  \<open>run_upgrade(manifest, scenario_path)\<close>. An exception inside the \<open>with\<close> block is
  logged by the context manager and raised again.
\<close>

definition run_upgrade :: "MigrationManifest \<Rightarrow> string \<Rightarrow> unit prog" where
  "run_upgrade m scenario_path =
     bindE (prepare_environment scenario_path m) (\<lambda>e.
       seqE start_docker_manager
         (finally_do
            (catch (seqE (prepare_container_env e (m_db_type m))
                      (seqE (run_migration m e)
                         (logger INFO ''Migration completed successfully'' [])))
               (\<lambda>x. seqE (logger ERROR ''Failed to start Docker container'' [])
                      (raise x)))
            (logger DEBUG ''Stopping Docker container'' [])))"

section \<open>Commands and their exit codes\<close>

text \<open>
  The exit code that the container gave to the command at position \<open>i\<close> of the trace,
  and the one command that the migration code sends with \<open>check_code=False\<close> and whose
  exit code it reads without raising: the \<open>cat\<close> of the install-path file in
  \<open>get_bin_dir\<close>, for a major version \<open>mj\<close>.
\<close>

definition exit_code_at :: "world \<Rightarrow> nat \<Rightarrow> int" where
  "exit_code_at w i = fst (container w (take i (trace w)) (trace w ! i))"

definition probe_call :: "string \<Rightarrow> call" where
  "probe_call mj =
     \<lparr>cmd = shlex_join [''cat'', ''/tmp/pg_install_path_'' @ mj @ ''.txt''],
      environment = None, workdir = None\<rparr>"

text \<open>The text of the log file, empty when there is no file.\<close>

definition log_text :: "world \<Rightarrow> string \<Rightarrow> string" where
  "log_text w p = (case files w p of None \<Rightarrow> [] | Some text \<Rightarrow> text)"

section \<open>Sample inputs\<close>

text \<open>
  A container in which every command exits with the given code and prints the given
  chunks, on a host with the given files; a manifest with one minor step from 15.8.0 to
  15.9.0, and the same manifest with a minor step to 16.6.0.
\<close>

definition sample_world :: "int \<Rightarrow> string list \<Rightarrow> (string \<times> string) list \<Rightarrow> world" where
  "sample_world code chunks fs =
     \<lparr>container = (\<lambda>tr c. (code, chunks)), trace = [], files = map_of fs, dirs = [],
      logged = [], stdout = [], docker = [],
      environ = map_of [(''NEXUS_USER'', ''u''), (''NEXUS_USER_PASSWORD'', ''p''),
                        (''NEXUS_URL'', ''https://nexus'')],
      abspath = (\<lambda>p. if take 1 p = ''/'' then p else ''/work/'' @ p),
      getcwd = ''/work'', TIMESTAMP = ''20240101''\<rparr>"

definition sample_env :: Environment where
  "sample_env =
     \<lparr>tmp_dir = ''/tmp'', env_new_db = ''/tmp/new_data'', env_old_db = ''/tmp/old_data'',
      env_logs_dir = ''/work/logs/upgrade_dbms_20240101'',
      scripts_dir = Some ''/scenario/scripts'', packages_dir = None,
      db_installer = ''/work/db_installer.sh'',
      pgdg_installer = ''/work/src/pgdg_installer.sh''\<rparr>"

definition sample_step :: MigrationStep where
  "sample_step =
     \<lparr>s_type = MINOR, s_db_version = ''15.9.0'', s_db_edition = Some ''se'', s_package = None,
      s_pre_scripts = SNone, s_post_scripts = SNone, s_verifiers = SNone\<rparr>"

definition cross_step :: MigrationStep where
  "cross_step = sample_step\<lparr>s_db_version := ''16.6.0''\<rparr>"

definition sample_manifest :: MigrationManifest where
  "sample_manifest =
     \<lparr>steps = [sample_step], m_db_type = ''ttdb'', m_db_version = ''15.8.0'',
      m_db_edition = Some ''se'', m_package = None, initial_setup_script = None,
      initial_pre_scripts = SNone, initial_post_scripts = SStr ''init_post.sql'',
      m_pre_scripts = SNone, m_post_scripts = SStr ''post.sql'', m_verifiers = SNone\<rparr>"

definition cross_manifest :: MigrationManifest where
  "cross_manifest = sample_manifest\<lparr>steps := [cross_step]\<rparr>"

text \<open>The sample manifest with a script to run before a minor step.\<close>

definition initial_pre_manifest :: MigrationManifest where
  "initial_pre_manifest = sample_manifest\<lparr>initial_pre_scripts := SStr ''init_pre.sql''\<rparr>"

text \<open>The two post scripts of the sample manifest, present on the host.\<close>

definition sample_files :: "(string \<times> string) list" where
  "sample_files =
     [(''/scenario/scripts/init_post.sql'', ''SELECT 1;''),
      (''/scenario/scripts/post.sql'', ''SELECT 2;'')]"

definition sample_runner :: runner where
  "sample_runner =
     \<lparr>manifest = sample_manifest, env = sample_env,
      nexus_env = \<lparr>NEXUS_USER = Some ''u'', NEXUS_USER_PASSWORD = Some ''p'',
                   NEXUS_URL = Some ''https://nexus''\<rparr>\<rparr>"

text \<open>The state that \<open>create_initial_state\<close> builds for the sample manifest.\<close>

definition sample_initial :: State where
  "sample_initial =
     \<lparr>old_db = \<lparr>db_version = None, bin_path = None, data_path = ''/tmp/old_data'',
                logs_dir = ''/work/logs/upgrade_dbms_20240101''\<rparr>,
      new_db = \<lparr>db_version = Some \<lparr>version = ''15.8.0'', edition = Some ''se'',
                                   major = ''15'', db_type = ''ttdb''\<rparr>,
                bin_path = Some ''/opt/tantor/db/15/bin'', data_path = ''/tmp/new_data'',
                logs_dir = ''/work/logs/upgrade_dbms_20240101/logs_15.8.0-se''\<rparr>,
      step = None\<rparr>"

text \<open>A database of version 16.6.0, for the SQL-script runner.\<close>

definition sample_db :: Database where
  "sample_db =
     \<lparr>db_version = Some \<lparr>version = ''16.6.0'', edition = Some ''se'',
                          major = ''16'', db_type = ''ttdb''\<rparr>,
      bin_path = Some ''/opt/tantor/db/16/bin'', data_path = ''/tmp/new_data'',
      logs_dir = ''/logs/logs_16.6.0-se''\<rparr>"

text \<open>
  A container that answers the first command it is sent with one text and every later
  command with another, both with exit code 0.
\<close>

definition two_answers :: "string list \<Rightarrow> string list \<Rightarrow> world" where
  "two_answers first later =
     (sample_world 0 [] [])\<lparr>container := (\<lambda>tr c. if tr = [] then (0, first) else (0, later))\<rparr>"

section \<open>Properties of the version descriptor\<close>

lemma digits1_number_end:
  "number x \<Longrightarrow> digits1 x = Some (x, [])"
proof -
  assume n: "number x"
  then have all: "\<forall>c\<in>set x. is_digit c" by (simp add: number_def list_all_iff)
  then have t: "takeWhile is_digit x = x" by simp
  from all have d: "dropWhile is_digit x = []" by simp
  from n have ne: "x \<noteq> []" by (simp add: number_def)
  show ?thesis unfolding digits1_def Let_def t d using ne by simp
qed

lemma digits1_number_dot:
  "number x \<Longrightarrow> digits1 (x @ CHR ''.'' # r) = Some (x, CHR ''.'' # r)"
proof -
  assume n: "number x"
  have nd: "\<not> is_digit CHR ''.''" by (simp add: is_digit_def)
  from n have all: "\<forall>c\<in>set x. is_digit c" by (simp add: number_def list_all_iff)
  from all nd have t: "takeWhile is_digit (x @ CHR ''.'' # r) = x"
    by simp
  from all nd have d: "dropWhile is_digit (x @ CHR ''.'' # r) = CHR ''.'' # r"
    by simp
  from n have ne: "x \<noteq> []" by (simp add: number_def)
  show ?thesis unfolding digits1_def Let_def t d using ne by simp
qed

lemma match_pgdg_two:
  "number x \<Longrightarrow> number y \<Longrightarrow> match_pgdg (x @ ''.'' @ y) = Some (x, y)"
  by (simp add: match_pgdg_def digits1_number_dot digits1_number_end at_dollar_def)

lemma match_pgdg_three:
  "number x \<Longrightarrow> number y \<Longrightarrow> number z \<Longrightarrow> match_pgdg (x @ ''.'' @ y @ ''.'' @ z) = Some (x, y)"
  by (simp add: match_pgdg_def digits1_number_dot digits1_number_end at_dollar_def)

text \<open>
  Claim C8. For a pgdg version string \<open>X.Y\<close> or \<open>X.Y.Z\<close> (each of \<open>X\<close>, \<open>Y\<close>, \<open>Z\<close> a
  non-empty run of digits) \<open>DbVersion.create\<close> succeeds, the stored version is exactly
  \<open>X.Y\<close>, its rendering is \<open>X.Y-pgdg\<close> with no patch component, and the stored version
  differs from an input that had a patch component.
\<close>

theorem pgdg_version_canonical:
  "number x \<Longrightarrow> number y \<Longrightarrow> number z \<Longrightarrow>
     create (x @ ''.'' @ y) ed ''pgdg''
       = Inr \<lparr>version = x @ ''.'' @ y, edition = None, major = x, db_type = ''pgdg''\<rparr>
   \<and> create (x @ ''.'' @ y @ ''.'' @ z) ed ''pgdg''
       = Inr \<lparr>version = x @ ''.'' @ y, edition = None, major = x, db_type = ''pgdg''\<rparr>
   \<and> str_DbVersion \<lparr>version = x @ ''.'' @ y, edition = None, major = x, db_type = ''pgdg''\<rparr>
       = x @ ''.'' @ y @ ''-pgdg''
   \<and> x @ ''.'' @ y \<noteq> x @ ''.'' @ y @ ''.'' @ z"
  using match_pgdg_two [of x y] match_pgdg_three [of x y z]
  by (simp add: create_def str_DbVersion_def)

theorem pgdg_version_canonical_witness:
  "number ''16'' \<and> number ''6'' \<and> number ''0''
   \<and> create ''16.6'' (Some ''se'') ''pgdg''
       = Inr \<lparr>version = ''16.6'', edition = None, major = ''16'', db_type = ''pgdg''\<rparr>
   \<and> create ''16.6.0'' (Some ''se'') ''pgdg''
       = Inr \<lparr>version = ''16.6'', edition = None, major = ''16'', db_type = ''pgdg''\<rparr>
   \<and> str_DbVersion \<lparr>version = ''16.6'', edition = None, major = ''16'', db_type = ''pgdg''\<rparr>
       = ''16.6-pgdg''"
proof -
  have n: "number ''16''" "number ''6''" "number ''0''"
    by (simp_all add: number_def is_digit_def)
  from pgdg_version_canonical [OF n, of "Some ''se''"] n show ?thesis by simp
qed

text \<open>
  Claim C9. Whenever \<open>DbVersion.create\<close> returns a descriptor for product type pgdg, the
  edition of the descriptor is \<open>None\<close>, whatever edition argument was passed.
\<close>

theorem pgdg_edition_discarded:
  "create ver ed ''pgdg'' = Inr v \<Longrightarrow> edition v = None"
  by (auto simp: create_def split: option.splits)

theorem pgdg_edition_discarded_witness:
  "create ''16.6.0'' (Some ''se'') ''pgdg''
     = Inr \<lparr>version = ''16.6'', edition = None, major = ''16'', db_type = ''pgdg''\<rparr>
   \<and> edition \<lparr>version = ''16.6'', edition = None, major = ''16'', db_type = ''pgdg''\<rparr> = None"
proof -
  have c: "create ''16.6.0'' (Some ''se'') ''pgdg''
     = Inr \<lparr>version = ''16.6'', edition = None, major = ''16'', db_type = ''pgdg''\<rparr>"
    by (simp add: create_def match_pgdg_def digits1_def is_digit_def at_dollar_def)
  from pgdg_edition_discarded [OF c] c show ?thesis by simp
qed

section \<open>Sequencing\<close>

lemma bindE_ret: "bindE (ret x) f = f x"
  by (rule ext) (simp add: bindE_def ret_def)

lemma bindE_raise: "bindE (raise e) f = raise e"
  by (rule ext) (simp add: bindE_def raise_def)

lemma bindE_Inl: "m w = (Inl e, w') \<Longrightarrow> bindE m f w = (Inl e, w')"
  by (simp add: bindE_def)

lemma bindE_Inr: "m w = (Inr x, w') \<Longrightarrow> bindE m f w = f x w'"
  by (simp add: bindE_def)

lemma seqE_Inl: "m w = (Inl e, w') \<Longrightarrow> seqE m n w = (Inl e, w')"
  by (simp add: seqE_def bindE_def)

lemma seqE_Inr: "m w = (Inr x, w') \<Longrightarrow> seqE m n w = n w'"
  by (simp add: seqE_def bindE_def)


section \<open>Strict UTF-8\<close>

lemma utf8_first_append: "utf8_first a \<noteq> 0 \<Longrightarrow> utf8_first (a @ b) = utf8_first a"
  apply (cases a)
   apply (simp add: utf8_first_def)
  subgoal for x1 r1
    apply (cases r1)
     apply (simp add: utf8_first_def split: if_splits)
    subgoal for x2 r2
      apply (cases r2)
       apply (simp add: utf8_first_def split: if_splits)
      subgoal for x3 r3
        apply (cases r3)
         apply (simp add: utf8_first_def split: if_splits)
        apply (simp add: utf8_first_def split: if_splits)
        done
      done
    done
  done

lemma utf8_first_le: "utf8_first a \<le> length a"
  apply (cases a)
   apply (simp add: utf8_first_def)
  subgoal for x1 r1
    apply (cases r1)
     apply (simp add: utf8_first_def split: if_splits)
    subgoal for x2 r2
      apply (cases r2)
       apply (simp add: utf8_first_def split: if_splits)
      subgoal for x3 r3
        apply (cases r3)
         apply (simp add: utf8_first_def split: if_splits)
        apply (simp add: utf8_first_def split: if_splits)
        done
      done
    done
  done

lemma utf8_valid_append: "utf8_valid a \<Longrightarrow> utf8_valid (a @ b) = utf8_valid b"
proof (induction a rule: utf8_valid.induct)
  case (1 s)
  show ?case
  proof (cases "s = []")
    case True
    then show ?thesis by simp
  next
    case False
    with "1.prems" have n: "utf8_first s \<noteq> 0" and v: "utf8_valid (drop (utf8_first s) s)"
      by (auto simp: utf8_valid.simps [of s] split: if_splits)
    from n have f: "utf8_first (s @ b) = utf8_first s" by (rule utf8_first_append)
    have d: "drop (utf8_first s) (s @ b) = drop (utf8_first s) s @ b"
      using utf8_first_le [of s] by simp
    from "1.IH" [OF False _ v] n have "utf8_valid (drop (utf8_first s) s @ b) = utf8_valid b"
      by simp
    with False n f d show ?thesis
      by (simp add: utf8_valid.simps [of "s @ b"])
  qed
qed

lemma utf8_valid_Nil: "utf8_valid []"
  by (simp add: utf8_valid.simps)

lemma utf8_valid_concat:
  "utf8_valid p \<Longrightarrow> list_all utf8_valid cs \<Longrightarrow> utf8_valid (p @ concat cs)"
proof (induction cs arbitrary: p)
  case Nil
  then show ?case by simp
next
  case (Cons c cs)
  from Cons.prems have "utf8_valid (p @ c)" by (simp add: utf8_valid_append)
  from Cons.IH [OF this] Cons.prems show ?case by simp
qed

section \<open>The executor and the log file\<close>

lemma path_join_nonempty: "b \<noteq> [] \<Longrightarrow> path_join a b \<noteq> []"
  by (simp add: path_join_def)

lemma fold_append_file_files:
  "files (fold (append_file p) cs w)
     = (if cs = [] then files w
        else (files w)(p \<mapsto> (case files w p of None \<Rightarrow> [] | Some old \<Rightarrow> old) @ concat cs))"
proof (induction cs arbitrary: w)
  case Nil
  then show ?case by simp
next
  case (Cons c cs)
  let ?pre = "case files w p of None \<Rightarrow> [] | Some old \<Rightarrow> old"
  have s1: "files (append_file p c w) = (files w)(p \<mapsto> ?pre @ c)"
    by (simp add: append_file_def split: option.splits)
  then have s2: "files (append_file p c w) p = Some (?pre @ c)" by simp
  have "fold (append_file p) (c # cs) w = fold (append_file p) cs (append_file p c w)"
    by simp
  with Cons.IH [of "append_file p c w"] show ?case
    by (auto simp: s1 s2 fun_eq_iff)
qed

lemma fold_append_file_other:
  "dirs (fold (append_file p) cs w) = dirs w"
  "logged (fold (append_file p) cs w) = logged w"
  "trace (fold (append_file p) cs w) = trace w"
  "container (fold (append_file p) cs w) = container w"
  by (induction cs arbitrary: w) (simp_all add: append_file_def)

lemma receive_valid:
  "list_all utf8_valid chunks \<Longrightarrow>
   receive logfile chunks contents w
     = (Inr (contents @ concat chunks),
        case logfile of None \<Rightarrow> w
        | Some lf \<Rightarrow> if lf = [] then w else fold (append_file lf) chunks w)"
  by (induction chunks arbitrary: contents w)
     (auto simp: ret_def seqE_def bindE_def append_text_def split: option.splits)

lemma receive_invalid:
  "\<not> list_all utf8_valid chunks \<Longrightarrow>
   \<exists>c w'. receive logfile chunks contents w = (Inl (UnicodeDecodeError (InvalidUtf8 c)), w')
     \<and> trace w' = trace w \<and> logged w' = logged w"
proof (induction chunks arbitrary: contents w)
  case Nil
  then show ?case by simp
next
  case (Cons c cs)
  show ?case
  proof (cases "utf8_valid c")
    case False
    then show ?thesis by (simp add: raise_def)
  next
    case True
    with Cons.prems have n: "\<not> list_all utf8_valid cs" by simp
    let ?w1 = "case logfile of None \<Rightarrow> w
               | Some lf \<Rightarrow> if lf = [] then w else append_file lf c w"
    have e: "receive logfile (c # cs) contents w = receive logfile cs (contents @ c) ?w1"
      using True
      by (auto simp: ret_def seqE_def bindE_def append_text_def split: option.splits)
    have t: "trace ?w1 = trace w" "logged ?w1 = logged w"
      by (auto simp: append_file_def split: option.splits)
    from Cons.IH [OF n, of "contents @ c" ?w1] e t show ?thesis by auto
  qed
qed

lemma shell_valid:
  assumes "container w (trace w) \<lparr>cmd = shlex_join command, environment = ev, workdir = cwd\<rparr>
             = (code, chunks)"
    and "list_all utf8_valid chunks"
  shows "fst (shell command ev logfile cwd check w)
           = (if check \<and> code \<noteq> 0 then Inl (RuntimeError (CommandFailed code command))
              else Inr (code, concat chunks))"
    and "files (snd (shell command ev logfile cwd check w))
           = files (case logfile of None \<Rightarrow> w
                    | Some lf \<Rightarrow> if lf = [] then w else fold (append_file lf) chunks w)"
    and "trace (snd (shell command ev logfile cwd check w))
           = trace w @ [\<lparr>cmd = shlex_join command, environment = ev, workdir = cwd\<rparr>]"
    and "dirs (snd (shell command ev logfile cwd check w)) = dirs w"
    and "container (snd (shell command ev logfile cwd check w)) = container w"
  using assms
  by (simp_all add: shell_def Let_def catch_def seqE_def bindE_def logger_def send_def
      receive_valid ret_def raise_def fold_append_file_files fold_append_file_other
      split: option.splits)

lemma shell_invalid:
  assumes "container w (trace w) \<lparr>cmd = shlex_join command, environment = ev, workdir = cwd\<rparr>
             = (code, chunks)"
    and "\<not> list_all utf8_valid chunks"
  shows "\<exists>c. fst (shell command ev logfile cwd check w) = Inl (UnicodeDecodeError (InvalidUtf8 c))"
proof -
  let ?cl = "\<lparr>cmd = shlex_join command, environment = ev, workdir = cwd\<rparr>"
  let ?w1 = "w\<lparr>logged := logged w @ [(DEBUG, ''Executing command in container: %s'',
                      [S (shlex_join command)])],
               trace := trace w @ [?cl]\<rparr>"
  from receive_invalid [OF assms(2), of logfile "[]" ?w1]
  obtain c w' where "receive logfile chunks [] ?w1 = (Inl (UnicodeDecodeError (InvalidUtf8 c)), w')"
    by blast
  with assms(1) show ?thesis
    by (simp add: shell_def Let_def catch_def seqE_def bindE_def logger_def send_def
        ret_def raise_def)
qed

section \<open>Searching a text for the error marker\<close>

lemma contains_iff: "contains m s \<longleftrightarrow> (\<exists>p q. s = p @ m @ q)"
proof (induction s)
  case Nil
  then show ?case by auto
next
  case (Cons c cs)
  have pre: "take (length m) (c # cs) = m \<longleftrightarrow> (\<exists>q. c # cs = m @ q)"
    by (metis append_eq_conv_conj append_take_drop_id)
  have "(\<exists>p q. c # cs = p @ m @ q) \<longleftrightarrow> (\<exists>q. c # cs = m @ q) \<or> (\<exists>p q. cs = p @ m @ q)"
  proof
    assume "\<exists>p q. c # cs = p @ m @ q"
    then obtain p q where e: "c # cs = p @ m @ q" by blast
    show "(\<exists>q. c # cs = m @ q) \<or> (\<exists>p q. cs = p @ m @ q)"
    proof (cases p)
      case Nil
      with e show ?thesis by auto
    next
      case (Cons a p')
      with e have "cs = p' @ m @ q" by simp
      then show ?thesis by blast
    qed
  next
    assume "(\<exists>q. c # cs = m @ q) \<or> (\<exists>p q. cs = p @ m @ q)"
    then show "\<exists>p q. c # cs = p @ m @ q"
    proof
      assume "\<exists>q. c # cs = m @ q"
      then obtain q where "c # cs = [] @ m @ q" by auto
      then show ?thesis by blast
    next
      assume "\<exists>p q. cs = p @ m @ q"
      then obtain p q where "c # cs = (c # p) @ m @ q" by auto
      then show ?thesis by blast
    qed
  qed
  with pre Cons show ?case by simp
qed

lemma contains_append: "contains m a \<Longrightarrow> contains m (a @ b)"
  unfolding contains_iff by (metis append.assoc)

lemma take_ne_head: "m \<noteq> [] \<Longrightarrow> c \<notin> set m \<Longrightarrow> take (length m) (c # s) \<noteq> m"
proof
  assume m: "m \<noteq> []" and c: "c \<notin> set m" and "take (length m) (c # s) = m"
  then have "hd m = c" by (cases m) auto
  with m c show False by (cases m) auto
qed

lemma contains_skip: "m \<noteq> [] \<Longrightarrow> c \<notin> set m \<Longrightarrow> contains m (c # s) \<longleftrightarrow> contains m s"
  using take_ne_head [of m c s] by simp

lemma contains_split_at:
  assumes "c \<notin> set m" "m \<noteq> []"
  shows "contains m (a @ c # s) \<longleftrightarrow> contains m (a @ [c]) \<or> contains m s"
proof (induction a)
  case Nil
  from assms take_ne_head [of m c s] take_ne_head [of m c "[]"] show ?case by simp
next
  case (Cons x a)
  have t: "take (length m) (x # a @ c # s) = m \<longleftrightarrow> take (length m) (x # a @ [c]) = m"
  proof (cases "length m \<le> length (x # a)")
    case True
    then have "take (length m) ((x # a) @ c # s) = take (length m) (x # a)"
      and "take (length m) ((x # a) @ [c]) = take (length m) (x # a)"
      by (simp_all del: append_Cons)
    then show ?thesis by simp
  next
    case False
    then have l: "length (x # a) < length m" by simp
    have n1: "take (length m) (x # a @ c # s) \<noteq> m"
    proof
      assume e: "take (length m) (x # a @ c # s) = m"
      have "(x # a @ c # s) ! length (x # a) = c" by (simp add: nth_append)
      with l e have "m ! length (x # a) = c" by (metis nth_take)
      with l assms(1) show False by (metis nth_mem)
    qed
    have n2: "take (length m) (x # a @ [c]) \<noteq> m"
    proof
      assume e: "take (length m) (x # a @ [c]) = m"
      have "(x # a @ [c]) ! length (x # a) = c" by (simp add: nth_append)
      with l e have "m ! length (x # a) = c" by (metis nth_take)
      with l assms(1) show False by (metis nth_mem)
    qed
    from n1 n2 show ?thesis by simp
  qed
  from Cons t show ?case by auto
qed

lemma lines_from_contains:
  assumes "m \<noteq> []" "CHR 0x0A \<notin> set m"
  shows "(\<exists>l\<in>set (lines_from acc s). contains m l) \<longleftrightarrow> contains m (acc @ s)"
proof (induction s arbitrary: acc)
  case Nil
  from assms(1) show ?case by (cases acc) auto
next
  case (Cons c cs)
  show ?case
  proof (cases "c = CHR 0x0A")
    case True
    have "contains m (acc @ c # cs) \<longleftrightarrow> contains m (acc @ [c]) \<or> contains m cs"
      using assms True by (intro contains_split_at) auto
    with True Cons [of "[]"] show ?thesis by simp
  next
    case False
    with Cons [of "acc @ [c]"] show ?thesis by simp
  qed
qed

lemma universal_newlines_cons:
  "c \<noteq> CHR 0x0D \<Longrightarrow> universal_newlines (c # s) = c # universal_newlines s"
  by (cases s) auto

lemma universal_newlines_cr:
  "\<exists>t. universal_newlines (CHR 0x0D # s) = CHR 0x0A # universal_newlines t \<and>
       (s = t \<or> s = CHR 0x0A # t)"
  by (cases s) auto

lemma prefix_universal_newlines:
  assumes "CHR 0x0A \<notin> set m" "CHR 0x0D \<notin> set m"
  shows "take (length m) (universal_newlines s) = m \<longleftrightarrow> take (length m) s = m"
  using assms
proof (induction m arbitrary: s)
  case Nil
  then show ?case by simp
next
  case (Cons a m)
  show ?case
  proof (cases s)
    case Nil
    then show ?thesis by simp
  next
    case (Cons c cs)
    show ?thesis
    proof (cases "c = CHR 0x0D")
      case True
      from universal_newlines_cr [of cs] obtain t where
        "universal_newlines (CHR 0x0D # cs) = CHR 0x0A # universal_newlines t" by blast
      with True Cons Cons.prems show ?thesis by auto
    next
      case False
      with Cons Cons.IH [of cs] Cons.prems show ?thesis
        by (simp add: universal_newlines_cons)
    qed
  qed
qed

lemma contains_universal_newlines:
  assumes "m \<noteq> []" "CHR 0x0A \<notin> set m" "CHR 0x0D \<notin> set m"
  shows "contains m (universal_newlines s) \<longleftrightarrow> contains m s"
proof (induction s rule: length_induct)
  case (1 s)
  show ?case
  proof (cases s)
    case Nil
    then show ?thesis by simp
  next
    case (Cons c cs)
    show ?thesis
    proof (cases "c = CHR 0x0D")
      case True
      from universal_newlines_cr [of cs] obtain t where
        u: "universal_newlines (CHR 0x0D # cs) = CHR 0x0A # universal_newlines t"
        and t: "cs = t \<or> cs = CHR 0x0A # t" by blast
      from t Cons have "length t < length s" by auto
      with 1 have ih: "contains m (universal_newlines t) \<longleftrightarrow> contains m t" by blast
      from t have ct: "contains m cs \<longleftrightarrow> contains m t"
      proof
        assume "cs = t" then show ?thesis by simp
      next
        assume "cs = CHR 0x0A # t"
        with contains_skip [OF assms(1) assms(2), of t] show ?thesis by simp
      qed
      have "contains m (universal_newlines s) \<longleftrightarrow> contains m (universal_newlines t)"
        using u True Cons contains_skip [OF assms(1) assms(2), of "universal_newlines t"]
        by simp
      moreover have "contains m s \<longleftrightarrow> contains m cs"
        using True Cons contains_skip [OF assms(1) assms(3), of cs] by simp
      ultimately show ?thesis using ih ct by simp
    next
      case False
      from Cons 1 have ih: "contains m (universal_newlines cs) \<longleftrightarrow> contains m cs" by simp
      have "take (length m) (universal_newlines (c # cs)) = m \<longleftrightarrow> take (length m) (c # cs) = m"
        using assms(2) assms(3) by (rule prefix_universal_newlines)
      with ih False Cons show ?thesis by (simp add: universal_newlines_cons)
    qed
  qed
qed

lemma marker_line_iff:
  "(\<exists>line\<in>set (file_lines content). contains ''ERROR:'' line) \<longleftrightarrow> contains ''ERROR:'' content"
proof -
  have "(\<exists>line\<in>set (file_lines content). contains ''ERROR:'' line)
          \<longleftrightarrow> contains ''ERROR:'' ([] @ universal_newlines content)"
    unfolding file_lines_def by (rule lines_from_contains) simp_all
  also have "\<dots> \<longleftrightarrow> contains ''ERROR:'' content"
    by (simp add: contains_universal_newlines)
  finally show ?thesis .
qed

lemma marker_line_append:
  "\<exists>line\<in>set (file_lines old). contains ''ERROR:'' line \<Longrightarrow>
   \<exists>line\<in>set (file_lines (old @ new)). contains ''ERROR:'' line"
  unfolding marker_line_iff by (rule contains_append)


lemma contains_middle: "contains m a \<Longrightarrow> contains m (p @ a @ q)"
proof -
  assume "contains m a"
  then obtain x y where "a = x @ m @ y" unfolding contains_iff by blast
  then have "p @ a @ q = (p @ x) @ m @ (y @ q)" by simp
  then show ?thesis unfolding contains_iff by blast
qed

lemma marker_line_middle:
  "\<exists>line\<in>set (file_lines new). contains ''ERROR:'' line \<Longrightarrow>
   \<exists>line\<in>set (file_lines (old @ new @ later)). contains ''ERROR:'' line"
  unfolding marker_line_iff by (rule contains_middle)

section \<open>The SQL-script runner and its log file\<close>

lemma run_sql_script_unfold:
  assumes b: "bin_path db = Some b"
    and c: "container w (trace w) (psql_call db b script_path) = (code, chunks)"
    and v: "list_all utf8_valid chunks"
  shows "fst (run_sql_script db script_path w)
     = (let logfile = get_log_file db (''psql_'' @ str_version (db_version db) @ ''.log'');
            after = fold (append_file logfile) chunks w
        in if code \<noteq> 0
           then Inl (RuntimeError (CommandFailed code
                  [''su'', ''-'', ''postgres'', ''-c'',
                   shlex_join [path_join b ''psql'', ''-f'', script_path]]))
           else if exists after logfile
           then (case files after logfile of
                   None \<Rightarrow> Inl (OSError (IsADirectory logfile))
                 | Some content \<Rightarrow>
                     if \<not> utf8_valid content
                     then Inl (UnicodeDecodeError (InvalidUtf8 content))
                     else if \<exists>line\<in>set (file_lines content). contains ''ERROR:'' line
                     then Inl (RuntimeError (ErrorFoundDuringExecution script_path logfile))
                     else Inr ())
           else Inr ())"
    and "files (snd (run_sql_script db script_path w))
     = files (fold (append_file (get_log_file db
                (''psql_'' @ str_version (db_version db) @ ''.log''))) chunks w)"
    and "trace (snd (run_sql_script db script_path w)) = trace w @ [psql_call db b script_path]"
    and "container (snd (run_sql_script db script_path w)) = container w"
    and "dirs (snd (run_sql_script db script_path w)) = dirs w"
  using b c v
  by (simp_all add: run_sql_script_def run_pg_binary_def get_pg_binary_def need_path_def
      get_log_file_def path_join_nonempty shell_def catch_def seqE_def bindE_def ret_def
      raise_def logger_def gets_def read_text_def send_def receive_valid
      Let_def psql_call_def exists_def fold_append_file_files
      fold_append_file_other filter_empty_conv
      split: option.splits list.splits)

lemma run_sql_script_invalid:
  assumes b: "bin_path db = Some b"
    and c: "container w (trace w) (psql_call db b script_path) = (code, chunks)"
    and v: "\<not> list_all utf8_valid chunks"
  shows "\<exists>x. fst (run_sql_script db script_path w) = Inl (UnicodeDecodeError (InvalidUtf8 x))"
proof -
  let ?lf = "get_log_file db (''psql_'' @ str_version (db_version db) @ ''.log'')"
  let ?command = "[''su'', ''-'', ''postgres'', ''-c'',
                   shlex_join [path_join b ''psql'', ''-f'', script_path]]"
  let ?w1 = "w\<lparr>logged := logged w @ [(INFO, ''Running SQL script %s (%s)'',
                  [S script_path, S (str_version (db_version db))])]
                @ [(DEBUG, ''Executing: %s'',
                    [S (shlex_join [path_join b ''psql'', ''-f'', script_path])])]\<rparr>"
  have "container ?w1 (trace ?w1)
          \<lparr>cmd = shlex_join ?command, environment = None, workdir = Some (data_path db)\<rparr>
        = (code, chunks)"
    using c by (simp add: psql_call_def)
  from shell_invalid [OF this v, of "Some ?lf" True]
  obtain x where "fst (shell ?command None (Some ?lf) (Some (data_path db)) True ?w1)
                    = Inl (UnicodeDecodeError (InvalidUtf8 x))" by blast
  then obtain w2 where s: "shell ?command None (Some ?lf) (Some (data_path db)) True ?w1
                    = (Inl (UnicodeDecodeError (InvalidUtf8 x)), w2)"
    by (cases "shell ?command None (Some ?lf) (Some (data_path db)) True ?w1") auto
  have "fst (run_sql_script db script_path w) = Inl (UnicodeDecodeError (InvalidUtf8 x))"
    using b s
    by (simp add: run_sql_script_def run_pg_binary_def get_pg_binary_def need_path_def
        catch_def seqE_def bindE_def ret_def raise_def logger_def Let_def)
  then show ?thesis by blast
qed

lemma sample_db_simps:
  "bin_path sample_db = Some ''/opt/tantor/db/16/bin''"
  "get_log_file sample_db (''psql_'' @ str_version (db_version sample_db) @ ''.log'')
     = ''/logs/logs_16.6.0-se/psql_16.6.0-se.log''"
  by (simp_all add: sample_db_def get_log_file_def path_join_def
      str_version_def str_DbVersion_def)





text \<open>
  C10. The log file of the SQL client is named from the binary and the version, not from
  the script, and every invocation appends to it. Let a first invocation print valid
  chunks \<open>out1\<close> with a line that contains the marker, on a host whose log text is valid
  UTF-8. Then the log file holds the earlier text followed by \<open>out1\<close>, the first
  invocation fails when its exit code is 0, and a second invocation of any script on the
  resulting host fails whatever the client answers. When the second client exits with
  code 0 and prints valid chunks \<open>out2\<close>, the failure is the script-execution error of
  the second script and the log file holds the earlier text, \<open>out1\<close> and \<open>out2\<close>. The
  same answer, without a marker line, on a host \<open>w0\<close> with no log file makes the call
  succeed: the failure comes from the content of the shared file.
\<close>

theorem sql_log_shared:
  assumes "bin_path db = Some b"
    and "logfile = get_log_file db (''psql_'' @ str_version (db_version db) @ ''.log'')"
    and "container w (trace w) (psql_call db b first) = (code1, out1)"
    and "container w (trace w @ [psql_call db b first]) (psql_call db b second) = (code2, out2)"
    and "list_all utf8_valid out1"
    and "utf8_valid (log_text w logfile)"
    and "\<exists>line\<in>set (file_lines (concat out1)). contains ''ERROR:'' line"
    and "w1 = snd (run_sql_script db first w)"
    and "container w0 (trace w0) (psql_call db b second) = (code2, out2)"
    and "\<not> exists w0 logfile"
  shows "files w1 logfile = Some (log_text w logfile @ concat out1)
       \<and> trace w1 = trace w @ [psql_call db b first]
       \<and> (code1 = 0 \<longrightarrow>
            fst (run_sql_script db first w)
              = Inl (RuntimeError (ErrorFoundDuringExecution first logfile)))
       \<and> (\<exists>e. fst (run_sql_script db second w1) = Inl e)
       \<and> (code2 = 0 \<and> list_all utf8_valid out2 \<longrightarrow>
            fst (run_sql_script db second w1)
              = Inl (RuntimeError (ErrorFoundDuringExecution second logfile))
            \<and> files (snd (run_sql_script db second w1)) logfile
                = Some (log_text w logfile @ concat out1 @ concat out2)
            \<and> trace (snd (run_sql_script db second w1))
                = trace w @ [psql_call db b first, psql_call db b second])
       \<and> (code2 = 0 \<and> list_all utf8_valid out2
            \<and> (\<forall>line\<in>set (file_lines (concat out2)). \<not> contains ''ERROR:'' line) \<longrightarrow>
            fst (run_sql_script db second w0) = Inr ())"
proof -
  let ?P = "log_text w logfile"
  from assms(7) have m1: "contains ''ERROR:'' (concat out1)" by (simp add: marker_line_iff)
  then have ne: "out1 \<noteq> []" by auto
  note r1 = run_sql_script_unfold [OF assms(1) assms(3) assms(5), folded assms(2)]
  have f1: "files w1 logfile = Some (?P @ concat out1)"
    using r1(2) ne unfolding assms(8)
    by (simp add: fold_append_file_files log_text_def)
  have t1: "trace w1 = trace w @ [psql_call db b first]"
    using r1(3) unfolding assms(8) .
  have c1: "container w1 = container w"
    using r1(4) unfolding assms(8) .
  have v1: "utf8_valid (?P @ concat out1)"
    using assms(6) assms(5) by (rule utf8_valid_concat)
  have mk1: "\<exists>line\<in>set (file_lines (?P @ concat out1)). contains ''ERROR:'' line"
    using marker_line_middle [OF assms(7), of ?P "[]"] by simp
  have a: "fst (run_sql_script db first w)
              = Inl (RuntimeError (ErrorFoundDuringExecution first logfile))" if "code1 = 0"
    using r1(1) that ne v1 mk1
    by (simp add: Let_def exists_def fold_append_file_files log_text_def)
  have s: "container w1 (trace w1) (psql_call db b second) = (code2, out2)"
    using assms(4) by (simp add: t1 c1)
  have l1: "log_text w1 logfile = ?P @ concat out1"
    using f1 by (simp add: log_text_def)
  have g: "fst (run_sql_script db second w1)
              = Inl (RuntimeError (ErrorFoundDuringExecution second logfile))
            \<and> files (snd (run_sql_script db second w1)) logfile
                = Some (?P @ concat out1 @ concat out2)
            \<and> trace (snd (run_sql_script db second w1))
                = trace w @ [psql_call db b first, psql_call db b second]"
    if z: "code2 = 0" and v: "list_all utf8_valid out2"
  proof -
    note r2 = run_sql_script_unfold [OF assms(1) s v, folded assms(2)]
    have f2: "files (fold (append_file logfile) out2 w1) logfile
                = Some (?P @ concat out1 @ concat out2)"
      using f1 by (simp add: fold_append_file_files)
    have v2: "utf8_valid (?P @ concat out1 @ concat out2)"
      using utf8_valid_concat [OF v1 v] by simp
    have mk2: "\<exists>line\<in>set (file_lines (?P @ concat out1 @ concat out2)).
                 contains ''ERROR:'' line"
      by (rule marker_line_middle [OF assms(7)])
    have "fst (run_sql_script db second w1)
              = Inl (RuntimeError (ErrorFoundDuringExecution second logfile))"
      using r2(1) z f2 v2 mk2 by (simp add: Let_def exists_def)
    moreover have "files (snd (run_sql_script db second w1)) logfile
                = Some (?P @ concat out1 @ concat out2)"
      using r2(2) f2 by simp
    moreover have "trace (snd (run_sql_script db second w1))
                = trace w @ [psql_call db b first, psql_call db b second]"
      using r2(3) t1 by simp
    ultimately show ?thesis by simp
  qed
  have e: "\<exists>e. fst (run_sql_script db second w1) = Inl e"
  proof (cases "list_all utf8_valid out2")
    case False
    from run_sql_script_invalid [OF assms(1) s False] show ?thesis by blast
  next
    case True
    show ?thesis
    proof (cases "code2 = 0")
      case True
      with g \<open>list_all utf8_valid out2\<close> show ?thesis by blast
    next
      case False
      with run_sql_script_unfold(1) [OF assms(1) s True] show ?thesis
        by (simp add: Let_def)
    qed
  qed
  have h: "fst (run_sql_script db second w0) = Inr ()"
    if z: "code2 = 0" and v: "list_all utf8_valid out2"
      and n: "\<forall>line\<in>set (file_lines (concat out2)). \<not> contains ''ERROR:'' line"
  proof -
    note r0 = run_sql_script_unfold(1) [OF assms(1) assms(9) v, folded assms(2)]
    from assms(10) have f0: "files w0 logfile = None" "logfile \<notin> set (dirs w0)"
      by (simp_all add: exists_def)
    have vc: "utf8_valid (concat out2)"
      using utf8_valid_concat [OF utf8_valid_Nil v] by simp
    show ?thesis
      using r0 z f0 vc n
      by (auto simp: Let_def exists_def fold_append_file_files fold_append_file_other
          split: option.splits)
  qed
  from f1 t1 a e g h show ?thesis by blast
qed

theorem sql_log_shared_witness:
  "fst (run_sql_script sample_db ''/scenario/scripts/second.sql''
          (snd (run_sql_script sample_db ''/scenario/scripts/first.sql''
                  (two_answers [''psql:first.sql:6: ERROR:  relation missing'', [CHR 0x0A]]
                     [''CREATE TABLE'', [CHR 0x0A]]))))
     = Inl (RuntimeError (ErrorFoundDuringExecution ''/scenario/scripts/second.sql''
              ''/logs/logs_16.6.0-se/psql_16.6.0-se.log''))
   \<and> files (snd (run_sql_script sample_db ''/scenario/scripts/second.sql''
          (snd (run_sql_script sample_db ''/scenario/scripts/first.sql''
                  (two_answers [''psql:first.sql:6: ERROR:  relation missing'', [CHR 0x0A]]
                     [''CREATE TABLE'', [CHR 0x0A]])))))
         ''/logs/logs_16.6.0-se/psql_16.6.0-se.log''
     = Some (''psql:first.sql:6: ERROR:  relation missing'' @ [CHR 0x0A]
             @ ''CREATE TABLE'' @ [CHR 0x0A])
   \<and> fst (run_sql_script sample_db ''/scenario/scripts/second.sql''
          (sample_world 0 [''CREATE TABLE'', [CHR 0x0A]] []))
     = Inr ()"
proof -
  let ?lf = "''/logs/logs_16.6.0-se/psql_16.6.0-se.log''"
  let ?F = "[''psql:first.sql:6: ERROR:  relation missing'', [CHR 0x0A]]"
  let ?L = "[''CREATE TABLE'', [CHR 0x0A]]"
  let ?w = "two_answers ?F ?L"
  let ?fresh = "sample_world 0 ?L []"
  let ?b = "''/opt/tantor/db/16/bin''"
  have c1: "container ?w (trace ?w) (psql_call sample_db ?b ''/scenario/scripts/first.sql'')
              = (0, ?F)"
    by (simp add: two_answers_def sample_world_def)
  have c2: "container ?w (trace ?w @ [psql_call sample_db ?b ''/scenario/scripts/first.sql''])
              (psql_call sample_db ?b ''/scenario/scripts/second.sql'') = (0, ?L)"
    by (simp add: two_answers_def sample_world_def)
  have v1: "list_all utf8_valid ?F" by code_simp
  have v2: "list_all utf8_valid ?L" by code_simp
  have vp: "utf8_valid (log_text ?w ?lf)"
    by (simp add: log_text_def two_answers_def sample_world_def utf8_valid_Nil)
  have lp: "log_text ?w ?lf = []"
    by (simp add: log_text_def two_answers_def sample_world_def)
  have mk: "\<exists>line\<in>set (file_lines (concat ?F)). contains ''ERROR:'' line"
    unfolding marker_line_iff by simp
  have nm: "\<forall>line\<in>set (file_lines (concat ?L)). \<not> contains ''ERROR:'' line"
    using marker_line_iff [of "concat ?L"] by simp
  have c0: "container ?fresh (trace ?fresh) (psql_call sample_db ?b ''/scenario/scripts/second.sql'')
              = (0, ?L)"
    by (simp add: sample_world_def)
  have n0: "\<not> exists ?fresh ?lf"
    by (simp add: exists_def sample_world_def)
  from sql_log_shared [OF sample_db_simps(1) sample_db_simps(2) [symmetric] c1 c2 v1 vp mk refl
      c0 n0] v2 nm lp
  show ?thesis by simp
qed

end
